theory Spec2Isabelle
  imports Main "HOL-Library.Word" "HOL-Library.Sublist"
begin

unbundle bit_operations_syntax

section \<open>Byte strings and errors\<close>

text \<open>
  Go's \<^verbatim>\<open>[]byte\<close> and \<^verbatim>\<open>string\<close> are both sequences of bytes, and the conversions
  \<^verbatim>\<open>string(data)\<close> and \<^verbatim>\<open>[]byte(s)\<close> keep every byte. Both are modelled by \<^typ>\<open>string\<close>
  (a list of 8-bit characters), so the conversions are the identity.

  A Go \<^verbatim>\<open>error\<close> is an optional value of the type of errors below, \<^term>\<open>None\<close> being \<^verbatim>\<open>nil\<close>.
  \<^verbatim>\<open>go.uber.org/multierr\<close> combines errors into one that lists all of them.
\<close>

datatype error = Err string | MultiErr "error list"

fun Errors :: "error \<Rightarrow> error list" where
  "Errors (Err m) = [Err m]"
| "Errors (MultiErr es) = es"

fun multierr_Append :: "error option \<Rightarrow> error option \<Rightarrow> error option" where
  "multierr_Append None right = right"
| "multierr_Append (Some l) None = Some l"
| "multierr_Append (Some l) (Some r) = Some (MultiErr (Errors l @ Errors r))"

text \<open>
  The error of a path that does not exist, which \<^verbatim>\<open>os.IsNotExist\<close> recognises.
\<close>

definition notExist :: error where
  "notExist = Err ''file does not exist''"


section \<open>File modes\<close>

text \<open>
  \<^verbatim>\<open>os.FileMode\<close> is a \<^verbatim>\<open>uint32\<close>: the low nine bits are the Unix permission bits,
  the high bits tell the type of the file.
\<close>

type_synonym FileMode = "32 word"

definition ModeDir :: FileMode where "ModeDir = push_bit 31 1"
definition ModeAppend :: FileMode where "ModeAppend = push_bit 30 1"
definition ModeExclusive :: FileMode where "ModeExclusive = push_bit 29 1"
definition ModeTemporary :: FileMode where "ModeTemporary = push_bit 28 1"
definition ModeSymlink :: FileMode where "ModeSymlink = push_bit 27 1"
definition ModeDevice :: FileMode where "ModeDevice = push_bit 26 1"
definition ModeNamedPipe :: FileMode where "ModeNamedPipe = push_bit 25 1"
definition ModeSocket :: FileMode where "ModeSocket = push_bit 24 1"
definition ModeSetuid :: FileMode where "ModeSetuid = push_bit 23 1"
definition ModeSetgid :: FileMode where "ModeSetgid = push_bit 22 1"
definition ModeCharDevice :: FileMode where "ModeCharDevice = push_bit 21 1"
definition ModeSticky :: FileMode where "ModeSticky = push_bit 20 1"
definition ModeIrregular :: FileMode where "ModeIrregular = push_bit 19 1"

definition ModeType :: FileMode where
  "ModeType = ModeDir OR ModeSymlink OR ModeNamedPipe OR ModeSocket OR ModeDevice
                OR ModeCharDevice OR ModeIrregular"

definition ModePerm :: FileMode where "ModePerm = 511"

definition IsRegular :: "FileMode \<Rightarrow> bool" where
  "IsRegular m = (m AND ModeType = 0)"

definition IsDir :: "FileMode \<Rightarrow> bool" where
  "IsDir m = (m AND ModeDir \<noteq> 0)"

text \<open>What \<^verbatim>\<open>Stat\<close> reports about a path.\<close>

record FileInfo =
  Name :: string
  Mode :: FileMode

text \<open>
  The file modes of the diff format (\<^verbatim>\<open>filemode.FileMode\<close> of go-git): a closed
  vocabulary.
\<close>

datatype filemode = Empty | Dir | Regular | Deprecated | Executable | Symlink | Submodule

section \<open>Patches\<close>

text \<open>
  \<^verbatim>\<open>plumbing.Hash\<close> is twenty bytes; \<^verbatim>\<open>plumbing.ZeroHash\<close> is twenty zero bytes and
  stands for an unknown hash.
\<close>

type_synonym Hash = string

definition ZeroHash :: Hash where
  "ZeroHash = replicate 20 (CHR 0x00)"

datatype Operation = Equal | Add | Delete

record gitDiffChunk =
  content :: string
  operation :: Operation

record gitDiffFile =
  hash :: Hash
  fileMode :: filemode
  path :: string

text \<open>
  The \<^verbatim>\<open>from\<close> and \<^verbatim>\<open>to\<close> fields are interface values that may be \<^verbatim>\<open>nil\<close>; a struct
  literal that does not set a field leaves it at its zero value (\<^verbatim>\<open>false\<close>, \<^verbatim>\<open>nil\<close>,
  the empty string).
\<close>

record gitDiffFilePatch =
  fp_isBinary :: bool
  fp_from :: "gitDiffFile option"
  fp_to :: "gitDiffFile option"
  fp_chunks :: "gitDiffChunk list"

record gitDiffPatch =
  filePatches :: "gitDiffFilePatch list"
  message :: string

section \<open>The libraries the diff backend calls\<close>

text \<open>
  The diff backend calls four libraries whose code is not part of the repository: the
  SHA-1 digest behind \<^verbatim>\<open>plumbing.ComputeHash\<close>, go-git's \<^verbatim>\<open>filemode.NewFromOSFileMode\<close>,
  \<^verbatim>\<open>http.DetectContentType\<close> and the diff-match-patch library. They are parameters of
  the model, collected in one record, so that every theorem below holds whatever they
  compute.

  The diff-match-patch functions take the \<^verbatim>\<open>dmp\<close> object, whose only field set by the
  code is the time budget \<^verbatim>\<open>DiffTimeout\<close> (in nanoseconds). When the budget runs out the
  library returns the diff it has so far, so what \<^verbatim>\<open>DiffMainRunes\<close> returns depends on
  the clock of the machine, which is outside this model: the parameter stands for what
  the library returns in the invocation at hand.
\<close>

datatype dmp_Operation = DiffDelete | DiffInsert | DiffEqual

record Diff =
  Type :: dmp_Operation
  Text :: string

record DiffMatchPatch =
  DiffTimeout :: nat

type_synonym rune = nat

record extern =
  hashSum :: "string \<Rightarrow> Hash"
  NewFromOSFileMode :: "FileMode \<Rightarrow> error + filemode"
  DetectContentType :: "string \<Rightarrow> string"
  diffmatchpatch_New :: DiffMatchPatch
  DiffLinesToRunes :: "DiffMatchPatch \<Rightarrow> string \<Rightarrow> string \<Rightarrow> rune list \<times> rune list \<times> string list"
  DiffMainRunes :: "DiffMatchPatch \<Rightarrow> rune list \<Rightarrow> rune list \<Rightarrow> bool \<Rightarrow> Diff list"
  DiffCharsToLines :: "DiffMatchPatch \<Rightarrow> Diff list \<Rightarrow> string list \<Rightarrow> Diff list"

section \<open>The diff backend\<close>

text \<open>\<^verbatim>\<open>strings.HasPrefix\<close> and \<^verbatim>\<open>strings.TrimPrefix\<close>.\<close>

definition HasPrefix :: "string \<Rightarrow> string \<Rightarrow> bool" where
  "HasPrefix str pre = prefix pre str"

definition TrimPrefix :: "string \<Rightarrow> string \<Rightarrow> string" where
  "TrimPrefix str pre = (if HasPrefix str pre then drop (length pre) str else str)"

text \<open>
  A \<^verbatim>\<open>SystemReader\<close> answers the read operations from the current state of the system
  it stands for (a filesystem and a persistent state store). The type of that state is
  the parameter \<open>'s\<close>; each read is a function of it. \<^verbatim>\<open>Glob\<close>, \<^verbatim>\<open>ReadDir\<close> and
  \<^verbatim>\<open>IdempotentCmdOutput\<close>, which the diff backend only passes on, are left out.
\<close>

record 's SystemReader =
  Get :: "'s \<Rightarrow> string \<Rightarrow> string \<Rightarrow> error + string"
  Lstat :: "'s \<Rightarrow> string \<Rightarrow> error + FileInfo"
  ReadFile :: "'s \<Rightarrow> string \<Rightarrow> error + string"
  Readlink :: "'s \<Rightarrow> string \<Rightarrow> error + string"
  Stat :: "'s \<Rightarrow> string \<Rightarrow> error + FileInfo"

text \<open>
  go-git's \<^verbatim>\<open>diff.UnifiedEncoder\<close> writes a patch to its output and may fail. Its state
  (what has been written so far) has the type \<open>'e\<close>.
\<close>

record 'e UnifiedEncoder =
  Encode :: "'e \<Rightarrow> gitDiffPatch \<Rightarrow> error option \<times> 'e"

record ('s, 'e) GitDiffSystem =
  sr :: "'s SystemReader"
  prefix :: string
  unifiedEncoder :: "'e UnifiedEncoder"

text \<open>
  The world a \<^verbatim>\<open>GitDiffSystem\<close> runs in: the state behind the wrapped reader and the
  state of the encoder. Every method takes the world and returns its error and the
  world afterwards.
\<close>

record ('s, 'e) world =
  wrapped :: 's
  sink :: 'e

definition encode :: "('s, 'e) GitDiffSystem \<Rightarrow> gitDiffPatch \<Rightarrow> ('s, 'e) world
    \<Rightarrow> error option \<times> ('s, 'e) world" where
  "encode s p w =
     (case Encode (unifiedEncoder s) (sink w) p of
        (err, e') \<Rightarrow> (err, w\<lparr>sink := e'\<rparr>))"

definition trimPrefix :: "('s, 'e) GitDiffSystem \<Rightarrow> string \<Rightarrow> string" where
  "trimPrefix s p = TrimPrefix p (GitDiffSystem.prefix s)"

definition getFileMode :: "extern \<Rightarrow> ('s, 'e) GitDiffSystem \<Rightarrow> string \<Rightarrow> ('s, 'e) world
    \<Rightarrow> error + (filemode \<times> FileInfo)" where
  "getFileMode X s name w =
     (case Stat (sr s) (wrapped w) name of
        Inl err \<Rightarrow> Inl err
      | Inr info \<Rightarrow>
          (case NewFromOSFileMode X (Mode info) of
             Inl err \<Rightarrow> Inl err
           | Inr fm \<Rightarrow> Inr (fm, info)))"

text \<open>
  \<^verbatim>\<open>plumbing.ComputeHash(plumbing.BlobObject, content)\<close>.

  Modelled from the spec: go-git's \<^verbatim>\<open>plumbing.ComputeHash\<close> is not under src/. The spec
  gives what it hashes, "the hash of the byte sequence "blob " + decimal(length) + NUL +
  content"; the digest itself is the parameter \<^term>\<open>hashSum\<close>.
\<close>

datatype ObjectType = CommitObject | TreeObject | BlobObject | TagObject

fun ObjectType_Bytes :: "ObjectType \<Rightarrow> string" where
  "ObjectType_Bytes CommitObject = ''commit''"
| "ObjectType_Bytes TreeObject = ''tree''"
| "ObjectType_Bytes BlobObject = ''blob''"
| "ObjectType_Bytes TagObject = ''tag''"

definition digit :: "nat \<Rightarrow> char" where
  "digit d = char_of (48 + d)"

fun decimal :: "nat \<Rightarrow> string" where
  "decimal n = (if n < 10 then [digit n] else decimal (n div 10) @ [digit (n mod 10)])"

declare decimal.simps [simp del]

definition ComputeHash :: "extern \<Rightarrow> ObjectType \<Rightarrow> string \<Rightarrow> Hash" where
  "ComputeHash X t c =
     hashSum X (ObjectType_Bytes t @ '' '' @ decimal (length c) @ [CHR 0x00] @ c)"

text \<open>
  What the spec says is hashed for a content \<open>C\<close>, in its words: the byte sequence
  "blob " + decimal(len(C)) + NUL + C.
\<close>

definition blobBytes :: "string \<Rightarrow> string" where
  "blobBytes c = ''blob '' @ decimal (length c) @ [CHR 0x00] @ c"

text \<open>The value of a string of decimal digits, to check \<^term>\<open>decimal\<close> against.\<close>

definition fromDecimal :: "string \<Rightarrow> nat" where
  "fromDecimal ds = foldl (\<lambda>acc c. 10 * acc + (of_char c - 48)) 0 ds"

definition isBinary :: "extern \<Rightarrow> string \<Rightarrow> bool" where
  "isBinary X data = (length data \<noteq> 0 \<and> \<not> HasPrefix (DetectContentType X data) ''text/'')"

text \<open>
  \<^verbatim>\<open>gitDiffOperation\<close> is a Go map; looking up a key it does not hold gives the zero
  value of \<^verbatim>\<open>diff.Operation\<close>, which is \<^verbatim>\<open>diff.Equal\<close>.
\<close>

definition gitDiffOperation :: "dmp_Operation \<rightharpoonup> Operation" where
  "gitDiffOperation = [DiffDelete \<mapsto> Delete, DiffEqual \<mapsto> Equal, DiffInsert \<mapsto> Add]"

definition lookupOperation :: "dmp_Operation \<Rightarrow> Operation" where
  "lookupOperation t = (case gitDiffOperation t of None \<Rightarrow> Equal | Some op \<Rightarrow> op)"

definition second :: nat where
  "second = 1000000000"

definition diffChunks :: "extern \<Rightarrow> string \<Rightarrow> string \<Rightarrow> gitDiffChunk list" where
  "diffChunks X from to =
     (let dmp = (diffmatchpatch_New X)\<lparr>DiffTimeout := second\<rparr> in
      case DiffLinesToRunes X dmp from to of
        (fromRunes, toRunes, runesToLines) \<Rightarrow>
          let diffs = DiffCharsToLines X dmp (DiffMainRunes X dmp fromRunes toRunes False) runesToLines
          in map (\<lambda>d. \<lparr>content = Text d, operation = lookupOperation (Type d)\<rparr>) diffs)"

subsection \<open>The write operations\<close>

definition GitDiffSystem_Chmod :: "extern \<Rightarrow> ('s, 'e) GitDiffSystem \<Rightarrow> string \<Rightarrow> FileMode
    \<Rightarrow> ('s, 'e) world \<Rightarrow> error option \<times> ('s, 'e) world" where
  "GitDiffSystem_Chmod X s name mode w =
     (case getFileMode X s name w of
        Inl err \<Rightarrow> (Some err, w)
      | Inr (fromFileMode, info) \<Rightarrow>
          (case NewFromOSFileMode X ((Mode info AND NOT ModePerm) OR mode) of
             Inl err \<Rightarrow> (Some err, w)
           | Inr toFileMode \<Rightarrow>
               let path = trimPrefix s name in
               encode s \<lparr>filePatches = [\<lparr>fp_isBinary = False,
                   fp_from = Some \<lparr>hash = ZeroHash, fileMode = fromFileMode, path = path\<rparr>,
                   fp_to = Some \<lparr>hash = ZeroHash, fileMode = toFileMode, path = path\<rparr>,
                   fp_chunks = []\<rparr>], message = []\<rparr> w))"

definition GitDiffSystem_Delete :: "('s, 'e) GitDiffSystem \<Rightarrow> string \<Rightarrow> string
    \<Rightarrow> ('s, 'e) world \<Rightarrow> error option \<times> ('s, 'e) world" where
  "GitDiffSystem_Delete s bucket key w = (None, w)"

definition GitDiffSystem_Mkdir :: "extern \<Rightarrow> ('s, 'e) GitDiffSystem \<Rightarrow> string \<Rightarrow> FileMode
    \<Rightarrow> ('s, 'e) world \<Rightarrow> error option \<times> ('s, 'e) world" where
  "GitDiffSystem_Mkdir X s name perm w =
     (case NewFromOSFileMode X (ModeDir OR perm) of
        Inl err \<Rightarrow> (Some err, w)
      | Inr toFileMode \<Rightarrow>
          encode s \<lparr>filePatches = [\<lparr>fp_isBinary = False,
              fp_from = None,
              fp_to = Some \<lparr>hash = ZeroHash, fileMode = toFileMode, path = trimPrefix s name\<rparr>,
              fp_chunks = []\<rparr>], message = []\<rparr> w)"

definition GitDiffSystem_RemoveAll :: "extern \<Rightarrow> ('s, 'e) GitDiffSystem \<Rightarrow> string
    \<Rightarrow> ('s, 'e) world \<Rightarrow> error option \<times> ('s, 'e) world" where
  "GitDiffSystem_RemoveAll X s name w =
     (case getFileMode X s name w of
        Inl err \<Rightarrow> (Some err, w)
      | Inr (fromFileMode, info) \<Rightarrow>
          encode s \<lparr>filePatches = [\<lparr>fp_isBinary = False,
              fp_from = Some \<lparr>hash = ZeroHash, fileMode = fromFileMode, path = trimPrefix s name\<rparr>,
              fp_to = None,
              fp_chunks = []\<rparr>], message = []\<rparr> w)"

definition GitDiffSystem_RunScript :: "extern \<Rightarrow> ('s, 'e) GitDiffSystem \<Rightarrow> string \<Rightarrow> string
    \<Rightarrow> ('s, 'e) world \<Rightarrow> error option \<times> ('s, 'e) world" where
  "GitDiffSystem_RunScript X s name data w =
     (let isBin = isBinary X data;
          chunks = (if \<not> isBin then [\<lparr>content = data, operation = Add\<rparr>] else [])
      in encode s \<lparr>filePatches = [\<lparr>fp_isBinary = isBin,
             fp_from = None,
             fp_to = Some \<lparr>hash = ComputeHash X BlobObject data, fileMode = Executable,
                            path = trimPrefix s name\<rparr>,
             fp_chunks = chunks\<rparr>], message = []\<rparr> w)"

definition GitDiffSystem_Rename :: "extern \<Rightarrow> ('s, 'e) GitDiffSystem \<Rightarrow> string \<Rightarrow> string
    \<Rightarrow> ('s, 'e) world \<Rightarrow> error option \<times> ('s, 'e) world" where
  "GitDiffSystem_Rename X s oldpath newpath w =
     (case getFileMode X s oldpath w of
        Inl err \<Rightarrow> (Some err, w)
      | Inr (fm, info) \<Rightarrow>
          encode s \<lparr>filePatches = [\<lparr>fp_isBinary = False,
              fp_from = Some \<lparr>hash = ZeroHash, fileMode = fm, path = trimPrefix s oldpath\<rparr>,
              fp_to = Some \<lparr>hash = ZeroHash, fileMode = fm, path = trimPrefix s newpath\<rparr>,
              fp_chunks = []\<rparr>], message = []\<rparr> w)"

definition GitDiffSystem_Set :: "('s, 'e) GitDiffSystem \<Rightarrow> string \<Rightarrow> string \<Rightarrow> string
    \<Rightarrow> ('s, 'e) world \<Rightarrow> error option \<times> ('s, 'e) world" where
  "GitDiffSystem_Set s bucket key value w = (None, w)"

definition GitDiffSystem_WriteFile :: "extern \<Rightarrow> ('s, 'e) GitDiffSystem \<Rightarrow> string \<Rightarrow> string
    \<Rightarrow> FileMode \<Rightarrow> ('s, 'e) world \<Rightarrow> error option \<times> ('s, 'e) world" where
  "GitDiffSystem_WriteFile X s filename data perm w =
     (case getFileMode X s filename w of
        Inl err \<Rightarrow> (Some err, w)
      | Inr (fromFileMode, info) \<Rightarrow>
          (case ReadFile (sr s) (wrapped w) filename of
             Inl err \<Rightarrow> (Some err, w)
           | Inr fromData \<Rightarrow>
               (case NewFromOSFileMode X perm of
                  Inl err \<Rightarrow> (Some err, w)
                | Inr toFileMode \<Rightarrow>
                    let path = trimPrefix s filename;
                        isBin = (isBinary X fromData \<or> isBinary X data);
                        chunks = (if \<not> isBin then diffChunks X fromData data else [])
                    in encode s \<lparr>filePatches = [\<lparr>fp_isBinary = isBin,
                           fp_from = Some \<lparr>hash = ComputeHash X BlobObject fromData,
                                          fileMode = fromFileMode, path = path\<rparr>,
                           fp_to = Some \<lparr>hash = ComputeHash X BlobObject data,
                                        fileMode = toFileMode, path = path\<rparr>,
                           fp_chunks = chunks\<rparr>], message = []\<rparr> w)))"

definition GitDiffSystem_WriteSymlink :: "extern \<Rightarrow> ('s, 'e) GitDiffSystem \<Rightarrow> string \<Rightarrow> string
    \<Rightarrow> ('s, 'e) world \<Rightarrow> error option \<times> ('s, 'e) world" where
  "GitDiffSystem_WriteSymlink X s oldname newname w =
     encode s \<lparr>filePatches = [\<lparr>fp_isBinary = False,
         fp_from = None,
         fp_to = Some \<lparr>hash = ComputeHash X BlobObject oldname, fileMode = Symlink,
                      path = trimPrefix s newname\<rparr>,
         fp_chunks = [\<lparr>content = oldname, operation = Add\<rparr>]\<rparr>], message = []\<rparr> w"

subsection \<open>The read operations\<close>

definition GitDiffSystem_Get :: "('s, 'e) GitDiffSystem \<Rightarrow> string \<Rightarrow> string
    \<Rightarrow> ('s, 'e) world \<Rightarrow> error + string" where
  "GitDiffSystem_Get s bucket key w = Get (sr s) (wrapped w) bucket key"

definition GitDiffSystem_ReadFile :: "('s, 'e) GitDiffSystem \<Rightarrow> string
    \<Rightarrow> ('s, 'e) world \<Rightarrow> error + string" where
  "GitDiffSystem_ReadFile s filename w = ReadFile (sr s) (wrapped w) filename"

definition GitDiffSystem_Readlink :: "('s, 'e) GitDiffSystem \<Rightarrow> string
    \<Rightarrow> ('s, 'e) world \<Rightarrow> error + string" where
  "GitDiffSystem_Readlink s name w = Readlink (sr s) (wrapped w) name"

definition GitDiffSystem_Stat :: "('s, 'e) GitDiffSystem \<Rightarrow> string
    \<Rightarrow> ('s, 'e) world \<Rightarrow> error + FileInfo" where
  "GitDiffSystem_Stat s name w = Stat (sr s) (wrapped w) name"

definition GitDiffSystem_Lstat :: "('s, 'e) GitDiffSystem \<Rightarrow> string
    \<Rightarrow> ('s, 'e) world \<Rightarrow> error + FileInfo" where
  "GitDiffSystem_Lstat s name w = Lstat (sr s) (wrapped w) name"

subsection \<open>Sequences of write calls\<close>

text \<open>
  A caller issues write calls one after the other. A call names the operation and its
  arguments; \<open>perform\<close> dispatches it to the method, and \<open>run\<close> performs a whole
  sequence, collecting the error of every call (a caller that stops at the first error
  has performed a shorter sequence).
\<close>

datatype call =
    CallChmod string FileMode
  | CallMkdir string FileMode
  | CallRemoveAll string
  | CallRename string string
  | CallRunScript string string
  | CallWriteFile string string FileMode
  | CallWriteSymlink string string
  | CallSet string string string
  | CallDelete string string

fun perform :: "extern \<Rightarrow> ('s, 'e) GitDiffSystem \<Rightarrow> call \<Rightarrow> ('s, 'e) world
    \<Rightarrow> error option \<times> ('s, 'e) world" where
  "perform X s (CallChmod name mode) w = GitDiffSystem_Chmod X s name mode w"
| "perform X s (CallMkdir name perm) w = GitDiffSystem_Mkdir X s name perm w"
| "perform X s (CallRemoveAll name) w = GitDiffSystem_RemoveAll X s name w"
| "perform X s (CallRename oldpath newpath) w = GitDiffSystem_Rename X s oldpath newpath w"
| "perform X s (CallRunScript name data) w = GitDiffSystem_RunScript X s name data w"
| "perform X s (CallWriteFile filename data perm) w = GitDiffSystem_WriteFile X s filename data perm w"
| "perform X s (CallWriteSymlink oldname newname) w = GitDiffSystem_WriteSymlink X s oldname newname w"
| "perform X s (CallSet bucket key val) w = GitDiffSystem_Set s bucket key val w"
| "perform X s (CallDelete bucket key) w = GitDiffSystem_Delete s bucket key w"

fun run :: "extern \<Rightarrow> ('s, 'e) GitDiffSystem \<Rightarrow> call list \<Rightarrow> ('s, 'e) world
    \<Rightarrow> error option list \<times> ('s, 'e) world" where
  "run X s [] w = ([], w)"
| "run X s (c # cs) w =
     (case perform X s c w of
        (err, w') \<Rightarrow> (case run X s cs w' of (errs, w'') \<Rightarrow> (err # errs, w'')))"

section \<open>The content sniffer\<close>

text \<open>
  Modelled from the spec: \<^verbatim>\<open>http.DetectContentType\<close> of Go's standard library is not
  under src/. The spec speaks of the "sniffed content type" of a content and of types
  with "a textual prefix". The model follows the library, which implements the WHATWG
  MIME sniffing algorithm: at most the first 512 bytes are looked at, the signatures are
  tried in order, the first one that matches gives the type, and the fallback is
  \<^verbatim>\<open>application/octet-stream\<close>. A signature that does not match gives the empty
  string.
\<close>

definition byte :: "char \<Rightarrow> nat" where
  "byte c = of_char c"

definition sniffLen :: nat where
  "sniffLen = 512"

definition isWS :: "char \<Rightarrow> bool" where
  "isWS b = (b = CHR 0x09 \<or> b = CHR 0x0A \<or> b = CHR 0x0C \<or> b = CHR 0x0D \<or> b = CHR '' '')"

definition isTT :: "char \<Rightarrow> bool" where
  "isTT b = (b = CHR '' '' \<or> b = CHR ''>'')"

datatype sniffSig =
    htmlSig string
  | maskedSig (mask: string) (pat: string) (skipWS: bool) (ct: string)
  | exactSig string string
  | mp4Sig
  | textSig

text \<open>
  An HTML signature is compared without regard to the case of the data: where the
  signature has a capital letter, the data byte is made a capital first.
\<close>

fun htmlPrefix :: "string \<Rightarrow> string \<Rightarrow> bool" where
  "htmlPrefix [] data = True"
| "htmlPrefix (b # h) [] = False"
| "htmlPrefix (b # h) (db # data) =
     (let db' = (if 65 \<le> byte b \<and> byte b \<le> 90 then byte db AND 223 else byte db)
      in if byte b \<noteq> db' then False else htmlPrefix h data)"

fun maskedPrefix :: "string \<Rightarrow> string \<Rightarrow> string \<Rightarrow> bool" where
  "maskedPrefix [] ms data = True"
| "maskedPrefix (pb # ps) (m # ms) (d # ds) =
     (if byte d AND byte m \<noteq> byte pb then False else maskedPrefix ps ms ds)"
| "maskedPrefix (pb # ps) ms data = False"

definition binaryByte :: "char \<Rightarrow> bool" where
  "binaryByte b = (byte b \<le> 8 \<or> byte b = 11 \<or> (14 \<le> byte b \<and> byte b \<le> 26)
                    \<or> (28 \<le> byte b \<and> byte b \<le> 31))"

definition bigEndianUint32 :: "string \<Rightarrow> nat" where
  "bigEndianUint32 b = ((byte (b ! 0) * 256 + byte (b ! 1)) * 256 + byte (b ! 2)) * 256 + byte (b ! 3)"

function mp4Brands :: "string \<Rightarrow> nat \<Rightarrow> nat \<Rightarrow> string" where
  "mp4Brands data boxSize st =
     (if st < boxSize then
        (if st = 12 then mp4Brands data boxSize (st + 4)
         else if take 3 (drop st data) = ''mp4'' then ''video/mp4''
         else mp4Brands data boxSize (st + 4))
      else [])"
  by pat_completeness auto
termination
  by (relation "measure (\<lambda>(data, boxSize, st). boxSize - st)") auto

declare mp4Brands.simps [simp del]

fun match :: "sniffSig \<Rightarrow> string \<Rightarrow> nat \<Rightarrow> string" where
  "match (htmlSig h) data0 firstNonWS =
     (let data = drop firstNonWS data0 in
      if length data < length h + 1 then []
      else if \<not> htmlPrefix h data then []
      else if \<not> isTT (data ! length h) then []
      else ''text/html; charset=utf-8'')"
| "match (maskedSig m p sk c) data0 firstNonWS =
     (let data = (if sk then drop firstNonWS data0 else data0) in
      if length p \<noteq> length m then []
      else if length data < length p then []
      else if \<not> maskedPrefix p m data then []
      else c)"
| "match (exactSig sg c) data firstNonWS = (if HasPrefix data sg then c else [])"
| "match mp4Sig data firstNonWS =
     (if length data < 12 then []
      else let boxSize = bigEndianUint32 (take 4 data) in
        if length data < boxSize \<or> boxSize mod 4 \<noteq> 0 then []
        else if take 4 (drop 4 data) \<noteq> ''ftyp'' then []
        else mp4Brands data boxSize 8)"
| "match textSig data firstNonWS =
     (if list_ex binaryByte (drop firstNonWS data) then [] else ''text/plain; charset=utf-8'')"

definition sniffSignatures :: "sniffSig list" where
  "sniffSignatures =
     [htmlSig ''<!DOCTYPE HTML'', htmlSig ''<HTML'', htmlSig ''<HEAD'', htmlSig ''<SCRIPT'',
      htmlSig ''<IFRAME'', htmlSig ''<H1'', htmlSig ''<DIV'', htmlSig ''<FONT'',
      htmlSig ''<TABLE'', htmlSig ''<A'', htmlSig ''<STYLE'', htmlSig ''<TITLE'',
      htmlSig ''<B'', htmlSig ''<BODY'', htmlSig ''<BR'', htmlSig ''<P'', htmlSig ''<!--'',
      maskedSig [CHR 0xFF, CHR 0xFF, CHR 0xFF, CHR 0xFF, CHR 0xFF] ''<?xml'' True
        ''text/xml; charset=utf-8'',
      exactSig ''%PDF-'' ''application/pdf'',
      exactSig ''%!PS-Adobe-'' ''application/postscript'',
      maskedSig [CHR 0xFF, CHR 0xFF, CHR 0x00, CHR 0x00] [CHR 0xFE, CHR 0xFF, CHR 0x00, CHR 0x00]
        False ''text/plain; charset=utf-16be'',
      maskedSig [CHR 0xFF, CHR 0xFF, CHR 0x00, CHR 0x00] [CHR 0xFF, CHR 0xFE, CHR 0x00, CHR 0x00]
        False ''text/plain; charset=utf-16le'',
      maskedSig [CHR 0xFF, CHR 0xFF, CHR 0xFF, CHR 0x00] [CHR 0xEF, CHR 0xBB, CHR 0xBF, CHR 0x00]
        False ''text/plain; charset=utf-8'',
      exactSig [CHR 0x00, CHR 0x00, CHR 0x01, CHR 0x00] ''image/x-icon'',
      exactSig [CHR 0x00, CHR 0x00, CHR 0x02, CHR 0x00] ''image/x-icon'',
      exactSig ''BM'' ''image/bmp'',
      exactSig ''GIF87a'' ''image/gif'',
      exactSig ''GIF89a'' ''image/gif'',
      maskedSig (replicate 4 (CHR 0xFF) @ replicate 4 (CHR 0x00) @ replicate 6 (CHR 0xFF))
        (''RIFF'' @ replicate 4 (CHR 0x00) @ ''WEBPVP'') False ''image/webp'',
      exactSig (CHR 0x89 # ''PNG'' @ [CHR 0x0D, CHR 0x0A, CHR 0x1A, CHR 0x0A]) ''image/png'',
      exactSig [CHR 0xFF, CHR 0xD8, CHR 0xFF] ''image/jpeg'',
      maskedSig (replicate 4 (CHR 0xFF)) ''.snd'' False ''audio/basic'',
      maskedSig (replicate 4 (CHR 0xFF) @ replicate 4 (CHR 0x00) @ replicate 4 (CHR 0xFF))
        (''FORM'' @ replicate 4 (CHR 0x00) @ ''AIFF'') False ''audio/aiff'',
      maskedSig (replicate 3 (CHR 0xFF)) ''ID3'' False ''audio/mpeg'',
      maskedSig (replicate 5 (CHR 0xFF)) (''OggS'' @ [CHR 0x00]) False ''application/ogg'',
      maskedSig (replicate 8 (CHR 0xFF)) (''MThd'' @ [CHR 0x00, CHR 0x00, CHR 0x00, CHR 0x06])
        False ''audio/midi'',
      maskedSig (replicate 4 (CHR 0xFF) @ replicate 4 (CHR 0x00) @ replicate 4 (CHR 0xFF))
        (''RIFF'' @ replicate 4 (CHR 0x00) @ ''AVI '') False ''video/avi'',
      maskedSig (replicate 4 (CHR 0xFF) @ replicate 4 (CHR 0x00) @ replicate 4 (CHR 0xFF))
        (''RIFF'' @ replicate 4 (CHR 0x00) @ ''WAVE'') False ''audio/wave'',
      mp4Sig,
      exactSig [CHR 0x1A, CHR 0x45, CHR 0xDF, CHR 0xA3] ''video/webm'',
      maskedSig (replicate 34 (CHR 0x00) @ replicate 2 (CHR 0xFF))
        (replicate 34 (CHR 0x00) @ ''LP'') False ''application/vnd.ms-fontobject'',
      exactSig [CHR 0x00, CHR 0x01, CHR 0x00, CHR 0x00] ''font/ttf'',
      exactSig ''OTTO'' ''font/otf'',
      exactSig ''ttcf'' ''font/collection'',
      exactSig ''wOFF'' ''font/woff'',
      exactSig ''wOF2'' ''font/woff2'',
      exactSig [CHR 0x1F, CHR 0x8B, CHR 0x08] ''application/x-gzip'',
      exactSig (''PK'' @ [CHR 0x03, CHR 0x04]) ''application/zip'',
      exactSig (''Rar!'' @ [CHR 0x1A, CHR 0x07, CHR 0x00]) ''application/x-rar-compressed'',
      exactSig (''Rar!'' @ [CHR 0x1A, CHR 0x07, CHR 0x01, CHR 0x00]) ''application/x-rar-compressed'',
      exactSig [CHR 0x00, CHR 0x61, CHR 0x73, CHR 0x6D] ''application/wasm'',
      textSig]"

fun firstMatch :: "sniffSig list \<Rightarrow> string \<Rightarrow> nat \<Rightarrow> string" where
  "firstMatch [] data firstNonWS = ''application/octet-stream''"
| "firstMatch (sg # sigs) data firstNonWS =
     (let c = match sg data firstNonWS in
      if c \<noteq> [] then c else firstMatch sigs data firstNonWS)"

definition http_DetectContentType :: "string \<Rightarrow> string" where
  "http_DetectContentType data0 =
     (let data = (if length data0 > sniffLen then take sniffLen data0 else data0);
          firstNonWS = length (takeWhile isWS data)
      in firstMatch sniffSignatures data firstNonWS)"

text \<open>
  The type a signature reports when it matches, and what makes a signature harmless for
  a content that begins with a NUL byte followed by \<open>xs\<close>: it reports no textual
  type, or it does not match.
\<close>

fun sigType :: "sniffSig \<Rightarrow> string" where
  "sigType (htmlSig h) = ''text/html; charset=utf-8''"
| "sigType (maskedSig m p sk c) = c"
| "sigType (exactSig sg c) = c"
| "sigType mp4Sig = ''video/mp4''"
| "sigType textSig = ''text/plain; charset=utf-8''"

definition nulSafe :: "string \<Rightarrow> sniffSig \<Rightarrow> bool" where
  "nulSafe xs sg = (match sg (CHR 0x00 # xs) 0 = [] \<or> \<not> HasPrefix (sigType sg) ''text/'')"

section \<open>Instances of the libraries and an in-memory system\<close>

text \<open>
  The theorems about the diff backend hold for every library record, reader and
  encoder. The examples evaluate the backend on the instances of this section.

  Modelled from the spec: go-git's \<^verbatim>\<open>filemode.NewFromOSFileMode\<close> is not under src/. The
  spec has it map "operating-system permission-and-type bits" onto the closed vocabulary
  "{none, regular file, executable file, symbolic link, directory}", an unsupported mode
  being an error. As in the library, a regular file is executable when its owner may
  execute it (bit 0100, that is 64), and a temporary file, a device, a named pipe or a
  socket has no equivalent.
\<close>

definition noEquivalent :: error where
  "noEquivalent = Err ''no equivalent git mode''"

definition filemode_NewFromOSFileMode :: "FileMode \<Rightarrow> error + filemode" where
  "filemode_NewFromOSFileMode m =
     (if IsRegular m then
        (if m AND ModeTemporary \<noteq> 0 then Inl noEquivalent
         else if m AND ModeCharDevice \<noteq> 0 then Inl noEquivalent
         else if m AND 64 \<noteq> 0 then Inr Executable
         else Inr Regular)
      else if IsDir m then Inr Dir
      else if m AND ModeSymlink \<noteq> 0 then Inr Symlink
      else Inl noEquivalent)"

text \<open>
  A stand-in for the digest (the first twenty bytes, padded with zeros) and for the
  diff library (the coarsest diff: the old text deleted, the new text inserted). They
  only make the examples closed terms: nothing the examples show depends on what the
  stand-ins compute.
\<close>

definition exampleSum :: "string \<Rightarrow> Hash" where
  "exampleSum bs = take 20 (bs @ ZeroHash)"

definition exampleLibs :: extern where
  "exampleLibs =
     \<lparr>hashSum = exampleSum,
      NewFromOSFileMode = filemode_NewFromOSFileMode,
      DetectContentType = http_DetectContentType,
      diffmatchpatch_New = \<lparr>DiffTimeout = 0\<rparr>,
      DiffLinesToRunes = (\<lambda>dmp a b. ([], [], [a, b])),
      DiffMainRunes = (\<lambda>dmp a b checklines. []),
      DiffCharsToLines = (\<lambda>dmp ds ls.
         case ls of
           [a, b] \<Rightarrow> [\<lparr>Type = DiffDelete, Text = a\<rparr>, \<lparr>Type = DiffInsert, Text = b\<rparr>]
         | _ \<Rightarrow> [])\<rparr>"

text \<open>
  An in-memory system: every path holds a mode and a content (for a symbolic link, its
  target), and the persistent state maps a bucket and a key to a value.
\<close>

record memfs =
  files :: "string \<rightharpoonup> FileMode \<times> string"
  buckets :: "string \<times> string \<rightharpoonup> string"

definition memStat :: "memfs \<Rightarrow> string \<Rightarrow> error + FileInfo" where
  "memStat m name =
     (case files m name of
        None \<Rightarrow> Inl notExist
      | Some (mode, c) \<Rightarrow> Inr \<lparr>Name = name, Mode = mode\<rparr>)"

definition memReadFile :: "memfs \<Rightarrow> string \<Rightarrow> error + string" where
  "memReadFile m name =
     (case files m name of
        None \<Rightarrow> Inl notExist
      | Some (mode, c) \<Rightarrow> Inr c)"

definition memGet :: "memfs \<Rightarrow> string \<Rightarrow> string \<Rightarrow> error + string" where
  "memGet m bucket key = (case buckets m (bucket, key) of None \<Rightarrow> Inr [] | Some v \<Rightarrow> Inr v)"

definition memReader :: "memfs SystemReader" where
  "memReader = \<lparr>Get = memGet, Lstat = memStat, ReadFile = memReadFile,
                 Readlink = memReadFile, Stat = memStat\<rparr>"

text \<open>An encoder that keeps the patches it is given, in order, and never fails.\<close>

definition listEncoder :: "gitDiffPatch list UnifiedEncoder" where
  "listEncoder = \<lparr>Encode = (\<lambda>e p. (None, e @ [p]))\<rparr>"

definition exampleSystem :: "(memfs, gitDiffPatch list) GitDiffSystem" where
  "exampleSystem = \<lparr>sr = memReader, prefix = ''/home/user/'', unifiedEncoder = listEncoder\<rparr>"

text \<open>
  The home directory of the examples: \<^verbatim>\<open>.bashrc\<close> is a regular file of mode 0644 (420)
  holding \<^verbatim>\<open>foo\<close>, \<^verbatim>\<open>fifo\<close> is a named pipe.
\<close>

definition exampleFS :: memfs where
  "exampleFS =
     \<lparr>files = [''/home/user/.bashrc'' \<mapsto> (420, ''foo''),
               ''/home/user/fifo'' \<mapsto> (ModeNamedPipe OR 420, [])],
      buckets = Map.empty\<rparr>"

definition exampleWorld :: "(memfs, gitDiffPatch list) world" where
  "exampleWorld = \<lparr>wrapped = exampleFS, sink = []\<rparr>"

section \<open>The direct backend\<close>

text \<open>
  The direct backend acts on a filesystem through the primitives of the operating
  system (or of the \<^verbatim>\<open>vfs.FS\<close> it is given). A filesystem maps each path that exists to
  its mode and its content; the content of a symbolic link is its target.

  Whether a primitive fails depends on things outside the model (permissions, a full
  disk, what a script does). The record \<open>outcomes\<close> fixes what each primitive
  answers during one call of the backend; the theorems hold for every such record. A
  failed write may have written the first bytes of the data; a script may change the
  filesystem as it likes. The record also holds \<^verbatim>\<open>filepath.Join\<close>, the one path function
  that is used and not modelled.
\<close>

type_synonym filesystem = "string \<rightharpoonup> FileMode \<times> string"

record outcomes =
  umask :: FileMode
  openErr :: "error option"
  chmodErr :: "error option"
  writeErr :: "(nat \<times> error) option"
  closeErr :: "error option"
  tempFile :: "error + string \<times> string"
  runScript :: "string \<Rightarrow> filesystem \<Rightarrow> error option \<times> filesystem"
  removeAllErr :: "error option"
  symlinkErr :: "error option"
  renameioErr :: "error option"
  filepath_Join :: "string \<Rightarrow> string \<Rightarrow> string"

text \<open>The calls of primitives, in the order a backend function makes them.\<close>

datatype open_flag = O_WRONLY | O_CREATE | O_TRUNC

datatype event =
    EvOpenFile string "open_flag list" FileMode
  | EvChmod string FileMode
  | EvWrite string string
  | EvClose string
  | EvTempFile string string
  | EvRun string
  | EvRemoveAll string
  | EvSymlink string string
  | EvRenameioSymlink string string

text \<open>
  A trace lists the primitive calls of one backend call with the filesystem after each.
\<close>

type_synonym trace = "(event \<times> filesystem) list"

definition finalState :: "filesystem \<Rightarrow> trace \<Rightarrow> filesystem" where
  "finalState fs tr = (case rev tr of [] \<Rightarrow> fs | (ev, fs') # rest \<Rightarrow> fs')"

text \<open>
  Of a \<^verbatim>\<open>FileMode\<close> the operating system takes the permission bits and the setuid,
  setgid and sticky bits, and nothing else (\<^verbatim>\<open>syscallMode\<close> in package \<^verbatim>\<open>os\<close>): it is what
  \<^verbatim>\<open>OpenFile\<close> creates a file with and what \<^verbatim>\<open>Chmod\<close> sets. The other bits of a file's
  mode tell its type and are not changed by \<^verbatim>\<open>Chmod\<close>.
\<close>

definition chmodBits :: FileMode where
  "chmodBits = ModePerm OR ModeSetuid OR ModeSetgid OR ModeSticky"

definition syscallMode :: "FileMode \<Rightarrow> FileMode" where
  "syscallMode m = m AND chmodBits"

definition chmodded :: "FileMode \<Rightarrow> FileMode \<Rightarrow> FileMode" where
  "chmodded old mode = (old AND NOT chmodBits) OR syscallMode mode"

text \<open>
  \<^verbatim>\<open>OpenFile\<close>: with \<^verbatim>\<open>O_CREATE\<close> a missing file is created empty, with the permission
  bits the umask allows; with \<^verbatim>\<open>O_TRUNC\<close> an existing file is emptied and keeps its mode.
\<close>

definition OpenFile :: "outcomes \<Rightarrow> filesystem \<Rightarrow> string \<Rightarrow> open_flag list \<Rightarrow> FileMode
    \<Rightarrow> error option \<times> filesystem" where
  "OpenFile out fs name flags perm =
     (case openErr out of
        Some err \<Rightarrow> (Some err, fs)
      | None \<Rightarrow>
          (case fs name of
             None \<Rightarrow>
               if O_CREATE \<in> set flags
               then (None, fs(name \<mapsto> (syscallMode perm AND NOT (umask out AND ModePerm), [])))
               else (Some notExist, fs)
           | Some (mode, c) \<Rightarrow>
               if O_TRUNC \<in> set flags then (None, fs(name \<mapsto> (mode, []))) else (None, fs)))"

text \<open>\<^verbatim>\<open>f.Chmod\<close>, \<^verbatim>\<open>f.Write\<close> (the first write after opening) and \<^verbatim>\<open>f.Close\<close> on an open file.\<close>

definition File_Chmod :: "outcomes \<Rightarrow> filesystem \<Rightarrow> string \<Rightarrow> FileMode
    \<Rightarrow> error option \<times> filesystem" where
  "File_Chmod out fs name mode =
     (case chmodErr out of
        Some err \<Rightarrow> (Some err, fs)
      | None \<Rightarrow>
          (case fs name of
             None \<Rightarrow> (None, fs)
           | Some (m, c) \<Rightarrow> (None, fs(name \<mapsto> (chmodded m mode, c)))))"

definition File_Write :: "outcomes \<Rightarrow> filesystem \<Rightarrow> string \<Rightarrow> string
    \<Rightarrow> error option \<times> filesystem" where
  "File_Write out fs name data =
     (case fs name of
        None \<Rightarrow> (map_option snd (writeErr out), fs)
      | Some (m, c) \<Rightarrow>
          (case writeErr out of
             Some (n, err) \<Rightarrow> (Some err, fs(name \<mapsto> (m, take n data @ drop n c)))
           | None \<Rightarrow> (None, fs(name \<mapsto> (m, data @ drop (length data) c)))))"

definition File_Close :: "outcomes \<Rightarrow> error option" where
  "File_Close out = closeErr out"

text \<open>
  \<^verbatim>\<open>RemoveAll\<close> removes a path and everything below it; a path that does not exist is
  no error.
\<close>

definition RemoveAll :: "outcomes \<Rightarrow> filesystem \<Rightarrow> string \<Rightarrow> error option \<times> filesystem" where
  "RemoveAll out fs name =
     (case removeAllErr out of
        Some err \<Rightarrow> (Some err, fs)
      | None \<Rightarrow> (None, (\<lambda>p. if p = name \<or> HasPrefix p (name @ ''/'') then None else fs p)))"








text \<open>\<^verbatim>\<open>path.Base\<close>: the last element of a path.\<close>

definition Base :: "string \<Rightarrow> string" where
  "Base p =
     (if p = [] then ''.''
      else
        let stripped = rev (dropWhile (\<lambda>c. c = CHR ''/'') (rev p));
            elem = rev (takeWhile (\<lambda>c. c \<noteq> CHR ''/'') (rev stripped))
        in if elem = [] then ''/'' else elem)"

text \<open>
  \<^verbatim>\<open>ioutil.TempFile("", pattern)\<close> creates a new file of mode 0600 (384) in the
  temporary directory; its name is the pattern with its last star replaced by random
  digits (a pattern without a star gets them at its end). The outcome gives the
  directory and the digits.
\<close>

definition TempFile :: "outcomes \<Rightarrow> filesystem \<Rightarrow> string \<Rightarrow> error + string \<times> filesystem" where
  "TempFile out fs pattern =
     (case tempFile out of
        Inl err \<Rightarrow> Inl err
      | Inr (dir, random) \<Rightarrow>
          let pre = (if CHR ''*'' \<in> set pattern
                     then rev (drop 1 (dropWhile (\<lambda>c. c \<noteq> CHR ''*'') (rev pattern)))
                     else pattern);
              suf = (if CHR ''*'' \<in> set pattern
                     then rev (takeWhile (\<lambda>c. c \<noteq> CHR ''*'') (rev pattern))
                     else []);
              name = dir @ ''/'' @ pre @ random @ suf
          in Inr (name, fs(name \<mapsto> (384, []))))"

subsection \<open>WriteFile\<close>

definition WriteFile :: "outcomes \<Rightarrow> filesystem \<Rightarrow> string \<Rightarrow> string \<Rightarrow> FileMode
    \<Rightarrow> error option \<times> trace" where
  "WriteFile out fs filename data perm =
     (case OpenFile out fs filename [O_WRONLY, O_CREATE, O_TRUNC] perm of
        (Some err, fs1) \<Rightarrow>
          (Some err, [(EvOpenFile filename [O_WRONLY, O_CREATE, O_TRUNC] perm, fs1)])
      | (None, fs1) \<Rightarrow>
          (case File_Chmod out fs1 filename perm of
             (Some err, fs2) \<Rightarrow>
               (multierr_Append (Some err) (File_Close out),
                [(EvOpenFile filename [O_WRONLY, O_CREATE, O_TRUNC] perm, fs1),
                 (EvChmod filename perm, fs2),
                 (EvClose filename, fs2)])
           | (None, fs2) \<Rightarrow>
               (case File_Write out fs2 filename data of
                  (err, fs3) \<Rightarrow>
                    (multierr_Append err (File_Close out),
                     [(EvOpenFile filename [O_WRONLY, O_CREATE, O_TRUNC] perm, fs1),
                      (EvChmod filename perm, fs2),
                      (EvWrite filename data, fs3),
                      (EvClose filename, fs3)]))))"

text \<open>
  What a state of the filesystem shows of a file that is being rewritten with \<open>data\<close>
  and \<open>perm\<close>: the file exists, every byte it holds is a byte of the new data, and
  when it holds any byte its permission bits (with setuid, setgid and sticky) are those
  of \<open>perm\<close>.
\<close>

definition exposesOnlyNew :: "string \<Rightarrow> string \<Rightarrow> FileMode \<Rightarrow> filesystem \<Rightarrow> bool" where
  "exposesOnlyNew filename data perm fs =
     (case fs filename of
        None \<Rightarrow> False
      | Some (m, c) \<Rightarrow> HasPrefix data c \<and> (c = [] \<or> syscallMode m = syscallMode perm))"

text \<open>
  A file whose mode has no type bit, and no other bit that \<^verbatim>\<open>Chmod\<close> leaves alone: a
  regular file. A path that does not exist yet counts, since \<^verbatim>\<open>OpenFile\<close> creates it so.
\<close>

definition regularOrAbsent :: "filesystem \<Rightarrow> string \<Rightarrow> bool" where
  "regularOrAbsent fs filename =
     (case fs filename of None \<Rightarrow> True | Some (m, c) \<Rightarrow> m AND NOT chmodBits = 0)"

text \<open>The mode of the destination once \<^verbatim>\<open>OpenFile\<close> has created or emptied it.\<close>

definition openedMode :: "outcomes \<Rightarrow> filesystem \<Rightarrow> string \<Rightarrow> FileMode \<Rightarrow> FileMode" where
  "openedMode out fs filename perm =
     (case fs filename of
        None \<Rightarrow> syscallMode perm AND NOT (umask out AND ModePerm)
      | Some (m, c) \<Rightarrow> m)"

subsection \<open>RunScript\<close>

text \<open>
  The statements of \<^verbatim>\<open>RunScript\<close> after the \<^verbatim>\<open>defer\<close>, on the temporary file \<open>tmp\<close>;
  0o700 is 448.
\<close>

definition RunScript_body :: "outcomes \<Rightarrow> filesystem \<Rightarrow> string \<Rightarrow> string
    \<Rightarrow> error option \<times> trace" where
  "RunScript_body out fs tmp data =
     (case File_Chmod out fs tmp 448 of
        (Some err, fs1) \<Rightarrow> (Some err, [(EvChmod tmp 448, fs1)])
      | (None, fs1) \<Rightarrow>
          (case File_Write out fs1 tmp data of
             (werr, fs2) \<Rightarrow>
               (case multierr_Append werr (File_Close out) of
                  Some err \<Rightarrow>
                    (Some err,
                     [(EvChmod tmp 448, fs1), (EvWrite tmp data, fs2), (EvClose tmp, fs2)])
                | None \<Rightarrow>
                    (case runScript out tmp fs2 of
                       (rerr, fs3) \<Rightarrow>
                         (rerr,
                          [(EvChmod tmp 448, fs1), (EvWrite tmp data, fs2), (EvClose tmp, fs2),
                           (EvRun tmp, fs3)])))))"

text \<open>
  The whole function: when the temporary file cannot be made it returns at once;
  otherwise the deferred function runs after the body, whatever the body returned.
\<close>

definition RealSystem_RunScript :: "outcomes \<Rightarrow> filesystem \<Rightarrow> string \<Rightarrow> string
    \<Rightarrow> error option \<times> trace" where
  "RealSystem_RunScript out fs name data =
     (case TempFile out fs (''*.'' @ Base name) of
        Inl err \<Rightarrow> (Some err, [])
      | Inr (tmp, fs0) \<Rightarrow>
          (case RunScript_body out fs0 tmp data of
             (err, tr) \<Rightarrow>
               (case RemoveAll out (finalState fs0 tr) tmp of
                  (rmErr, fs') \<Rightarrow>
                    (multierr_Append err rmErr,
                     (EvTempFile (''*.'' @ Base name) tmp, fs0) # tr @ [(EvRemoveAll tmp, fs')]))))"

subsection \<open>WriteSymlink\<close>



subsection \<open>Outcomes for the examples\<close>

text \<open>
  Every primitive succeeds, the script changes nothing, the umask is 022 (18), and joining
  is concatenation, which is what \<^verbatim>\<open>filepath.Join\<close> gives for a root without a final
  slash and a clean absolute path.
\<close>

definition noFailure :: outcomes where
  "noFailure =
     \<lparr>umask = 18, openErr = None, chmodErr = None, writeErr = None, closeErr = None,
      tempFile = Inr (''/tmp'', ''123456789''), runScript = (\<lambda>name fs. (None, fs)),
      removeAllErr = None, symlinkErr = None, renameioErr = None,
      filepath_Join = (\<lambda>dir name. dir @ name)\<rparr>"

section \<open>The entry model\<close>

text \<open>
  Modelled from the spec: the entry model (\<^verbatim>\<open>TargetState.Populate\<close> and the decoding of
  source names) is not under src/; only its test, \<^verbatim>\<open>lib/chezmoi/chezmoi_test.go\<close>, is.
  The spec: "every entry's target name is derived deterministically from its source name
  via a naming-convention decode (hidden-file marker, private/secret marker, executable
  marker, symlink marker, template-file marker); permission bits default per type (files
  0666, directories 0777) masked by a process-wide umask, reduced to 0600/0700
  respectively when the private marker is present", and "file permission = 0600 (or 0700
  for directories), irrespective of umask for the owner bits".

  The spelling of the markers is that of the names the test uses: \<^verbatim>\<open>private_\<close>,
  \<^verbatim>\<open>empty_\<close>, \<^verbatim>\<open>symlink_\<close> and \<^verbatim>\<open>dot_\<close> in front, \<^verbatim>\<open>.tmpl\<close> at the end. The test has
  \<^verbatim>\<open>private_\<close> and \<^verbatim>\<open>symlink_\<close> in front of \<^verbatim>\<open>dot_\<close>, and \<^verbatim>\<open>empty_foo\<close> written to
  \<^verbatim>\<open>foo\<close>. Neither the spec nor the test spells the executable marker or places it and
  \<^verbatim>\<open>empty_\<close> among the others: here it is \<^verbatim>\<open>executable_\<close>, spelled like the others, and
  a file name is decoded in the order \<^verbatim>\<open>private_\<close>, \<^verbatim>\<open>empty_\<close>, \<^verbatim>\<open>executable_\<close>,
  \<^verbatim>\<open>dot_\<close>. The spec does not say what the executable marker does to the permission
  bits either: that is the parameter \<open>exec\<close>, applied to the default 0666 of a file
  that is not private. For a private file the spec's sentence stands as it is written:
  0600.

  Templates are flagged, not evaluated. The fields of the entries are those of the
  test's expected values, and a flag for \<^verbatim>\<open>empty_\<close>; 0600 is 384, 0700 is 448, 0666 is
  438, 0777 is 511.
\<close>

datatype Entry =
    FileEntry (sourceName: string) (targetName: string) (Perm: FileMode) (Empty: bool)
      (Template: bool) (contents: string)
  | DirEntry (sourceName: string) (targetName: string) (Perm: FileMode)
      (Entries: "(string \<times> Entry) list")
  | SymlinkEntry (sourceName: string) (targetName: string) (Template: bool) (linkname: string)

text \<open>The source directory as it is scanned: a file with its content, or a directory.\<close>

datatype SourceNode = ScannedFile string | ScannedDir "(string \<times> SourceNode) list"

definition privatePrefix :: string where "privatePrefix = ''private_''"
definition emptyPrefix :: string where "emptyPrefix = ''empty_''"
definition executablePrefix :: string where "executablePrefix = ''executable_''"
definition dotPrefix :: string where "dotPrefix = ''dot_''"
definition symlinkPrefix :: string where "symlinkPrefix = ''symlink_''"
definition templateSuffix :: string where "templateSuffix = ''.tmpl''"

definition HasSuffix :: "string \<Rightarrow> string \<Rightarrow> bool" where
  "HasSuffix str suf = HasPrefix (rev str) (rev suf)"

definition TrimSuffix :: "string \<Rightarrow> string \<Rightarrow> string" where
  "TrimSuffix str suf = (if HasSuffix str suf then take (length str - length suf) str else str)"

definition joinPath :: "string \<Rightarrow> string \<Rightarrow> string" where
  "joinPath dir name = (if dir = [] then name else dir @ ''/'' @ name)"

text \<open>The hidden-file marker: \<^verbatim>\<open>dot_\<close> in front becomes a dot.\<close>

definition decodeDot :: "string \<Rightarrow> string" where
  "decodeDot name = (if HasPrefix name dotPrefix then ''.'' @ TrimPrefix name dotPrefix else name)"

definition filePerm :: "(FileMode \<Rightarrow> FileMode) \<Rightarrow> FileMode \<Rightarrow> bool \<Rightarrow> bool \<Rightarrow> FileMode" where
  "filePerm exec um private executable =
     (if private then 384 else (if executable then exec 438 else 438) AND NOT um)"

definition dirPerm :: "FileMode \<Rightarrow> bool \<Rightarrow> FileMode" where
  "dirPerm um private = (if private then 448 else 511 AND NOT um)"

fun populateEntry :: "(FileMode \<Rightarrow> FileMode) \<Rightarrow> FileMode \<Rightarrow> string \<Rightarrow> string \<Rightarrow> string
    \<Rightarrow> SourceNode \<Rightarrow> string \<times> Entry"
  and populateEntries :: "(FileMode \<Rightarrow> FileMode) \<Rightarrow> FileMode \<Rightarrow> string \<Rightarrow> string
    \<Rightarrow> (string \<times> SourceNode) list \<Rightarrow> (string \<times> Entry) list" where
  "populateEntry exec um sourceDir targetDir name (ScannedFile c) =
     (if HasPrefix name symlinkPrefix then
        let base = decodeDot (TrimPrefix name symlinkPrefix);
            target = TrimSuffix base templateSuffix
        in (target, SymlinkEntry (joinPath sourceDir name) (joinPath targetDir target)
                      (HasSuffix base templateSuffix) c)
      else
        let private = HasPrefix name privatePrefix;
            rest1 = TrimPrefix name privatePrefix;
            empty = HasPrefix rest1 emptyPrefix;
            rest2 = TrimPrefix rest1 emptyPrefix;
            executable = HasPrefix rest2 executablePrefix;
            base = decodeDot (TrimPrefix rest2 executablePrefix);
            target = TrimSuffix base templateSuffix
        in (target, FileEntry (joinPath sourceDir name) (joinPath targetDir target)
                      (filePerm exec um private executable) empty
                      (HasSuffix base templateSuffix) c))"
| "populateEntry exec um sourceDir targetDir name (ScannedDir children) =
     (let private = HasPrefix name privatePrefix;
          target = decodeDot (TrimPrefix name privatePrefix)
      in (target, DirEntry (joinPath sourceDir name) (joinPath targetDir target)
                    (dirPerm um private)
                    (populateEntries exec um (joinPath sourceDir name)
                       (joinPath targetDir target) children)))"
| "populateEntries exec um sourceDir targetDir [] = []"
| "populateEntries exec um sourceDir targetDir ((name, node) # rest) =
     populateEntry exec um sourceDir targetDir name node
       # populateEntries exec um sourceDir targetDir rest"

text \<open>
  The aggregate root, and its population from the listing of the source directory. The
  template data and functions are left out.
\<close>

record TargetState =
  TargetDir :: string
  Umask :: FileMode
  SourceDir :: string
  TargetEntries :: "(string \<times> Entry) list"

definition NewTargetState :: "string \<Rightarrow> FileMode \<Rightarrow> string \<Rightarrow> TargetState" where
  "NewTargetState targetDir um sourceDir =
     \<lparr>TargetDir = targetDir, Umask = um, SourceDir = sourceDir, TargetEntries = []\<rparr>"

definition Populate :: "(FileMode \<Rightarrow> FileMode) \<Rightarrow> TargetState \<Rightarrow> (string \<times> SourceNode) list
    \<Rightarrow> TargetState" where
  "Populate exec ts root = ts\<lparr>TargetEntries := populateEntries exec (Umask ts) [] [] root\<rparr>"

text \<open>
  For the examples: the executable marker adds the three execute bits (0111, that is 73).
\<close>

definition addExecuteBits :: "FileMode \<Rightarrow> FileMode" where
  "addExecuteBits m = m OR 73"

section \<open>The diff backend leaves the wrapped state alone\<close>

lemma wrapped_encode: "wrapped (snd (encode s p w)) = wrapped w"
  by (simp add: encode_def split: prod.split)

lemma wrapped_Chmod: "wrapped (snd (GitDiffSystem_Chmod X s name mode w)) = wrapped w"
  by (simp add: GitDiffSystem_Chmod_def wrapped_encode Let_def split: sum.split prod.split)

lemma wrapped_Mkdir: "wrapped (snd (GitDiffSystem_Mkdir X s name perm w)) = wrapped w"
  by (simp add: GitDiffSystem_Mkdir_def wrapped_encode split: sum.split)

lemma wrapped_RemoveAll: "wrapped (snd (GitDiffSystem_RemoveAll X s name w)) = wrapped w"
  by (simp add: GitDiffSystem_RemoveAll_def wrapped_encode split: sum.split prod.split)

lemma wrapped_Rename: "wrapped (snd (GitDiffSystem_Rename X s old new w)) = wrapped w"
  by (simp add: GitDiffSystem_Rename_def wrapped_encode split: sum.split prod.split)

lemma wrapped_RunScript: "wrapped (snd (GitDiffSystem_RunScript X s name data w)) = wrapped w"
  by (simp add: GitDiffSystem_RunScript_def wrapped_encode Let_def)

lemma wrapped_WriteFile:
  "wrapped (snd (GitDiffSystem_WriteFile X s filename data perm w)) = wrapped w"
  by (simp add: GitDiffSystem_WriteFile_def wrapped_encode Let_def split: sum.split prod.split)

lemma wrapped_WriteSymlink:
  "wrapped (snd (GitDiffSystem_WriteSymlink X s old new w)) = wrapped w"
  by (simp add: GitDiffSystem_WriteSymlink_def wrapped_encode)

lemma wrapped_perform: "wrapped (snd (perform X s c w)) = wrapped w"
  by (cases c)
     (simp_all add: wrapped_Chmod wrapped_Mkdir wrapped_RemoveAll wrapped_Rename
        wrapped_RunScript wrapped_WriteFile wrapped_WriteSymlink
        GitDiffSystem_Set_def GitDiffSystem_Delete_def)

lemma wrapped_run: "wrapped (snd (run X s cs w)) = wrapped w"
proof (induction cs arbitrary: w)
  case Nil
  show ?case by simp
next
  case (Cons c cs)
  obtain err w' where p: "perform X s c w = (err, w')"
    by (cases "perform X s c w")
  obtain errs w'' where r: "run X s cs w' = (errs, w'')"
    by (cases "run X s cs w'")
  have "wrapped w'' = wrapped w'"
    using Cons.IH [of w'] r by simp
  moreover have "wrapped w' = wrapped w"
    using wrapped_perform [of X s c w] p by simp
  ultimately show ?case
    using p r by simp
qed

text \<open>
  C1. Whatever sequence of write calls (Chmod, Mkdir, RemoveAll, Rename, RunScript,
  WriteFile, WriteSymlink, Set, Delete) is issued through a GitDiffSystem, the state
  behind the wrapped reader is the same afterwards. So every query of that state, made
  by the backend's own reads or directly by any other reader \<open>direct\<close>, returns what it
  returned before: the content of any path and the value of any persistent-state key.
  Set and Delete return no error and leave the whole world (wrapped state and encoder
  output) as it was, whatever their arguments.
\<close>

theorem C1_writes_leave_wrapped_state:
  "wrapped (snd (run X s cs w)) = wrapped w
   \<and> ReadFile direct (wrapped (snd (run X s cs w))) p = ReadFile direct (wrapped w) p
   \<and> Get direct (wrapped (snd (run X s cs w))) bucket key = Get direct (wrapped w) bucket key
   \<and> GitDiffSystem_ReadFile s p (snd (run X s cs w)) = GitDiffSystem_ReadFile s p w
   \<and> GitDiffSystem_Get s bucket key (snd (run X s cs w)) = GitDiffSystem_Get s bucket key w
   \<and> GitDiffSystem_Set s bucket key val w = (None, w)
   \<and> GitDiffSystem_Delete s bucket key w = (None, w)"
  by (simp add: wrapped_run GitDiffSystem_ReadFile_def GitDiffSystem_Get_def
        GitDiffSystem_Set_def GitDiffSystem_Delete_def)

section \<open>Evaluating the examples\<close>

lemmas Mode_defs = ModeDir_def ModeAppend_def ModeExclusive_def ModeTemporary_def
  ModeSymlink_def ModeDevice_def ModeNamedPipe_def ModeSocket_def ModeSetuid_def
  ModeSetgid_def ModeCharDevice_def ModeSticky_def ModeIrregular_def ModeType_def
  ModePerm_def IsRegular_def IsDir_def

lemma example_getFileMode:
  "getFileMode exampleLibs exampleSystem ''/home/user/.bashrc'' exampleWorld
     = Inr (Regular, \<lparr>Name = ''/home/user/.bashrc'', Mode = 420\<rparr>)"
  by (simp add: getFileMode_def exampleSystem_def memReader_def memStat_def exampleWorld_def
        exampleFS_def exampleLibs_def filemode_NewFromOSFileMode_def Mode_defs)

lemma example_ReadFile:
  "ReadFile (sr exampleSystem) (wrapped exampleWorld) ''/home/user/.bashrc'' = Inr ''foo''"
  by (simp add: exampleSystem_def memReader_def memReadFile_def exampleWorld_def exampleFS_def)

lemma example_NewFromOSFileMode_420: "NewFromOSFileMode exampleLibs 420 = Inr Regular"
  by (simp add: exampleLibs_def filemode_NewFromOSFileMode_def Mode_defs)

section \<open>Content hashes\<close>

lemma ComputeHash_blob: "ComputeHash X BlobObject c = hashSum X (blobBytes c)"
  by (simp add: ComputeHash_def blobBytes_def)

text \<open>\<^term>\<open>decimal\<close> writes a number in decimal digits: reading them gives the number back.\<close>

lemma fromDecimal_snoc: "fromDecimal (ds @ [c]) = 10 * fromDecimal ds + (of_char c - 48)"
  by (simp add: fromDecimal_def)

lemma of_char_digit: "n < 10 \<Longrightarrow> (of_char (digit n) :: nat) - 48 = n"
  by (simp add: digit_def)

lemma fromDecimal_decimal: "fromDecimal (decimal n) = n"
proof (induction n rule: decimal.induct)
  case (1 n)
  show ?case
  proof (cases "n < 10")
    case True
    then show ?thesis
      by (subst decimal.simps) (simp add: fromDecimal_def of_char_digit)
  next
    case False
    then have "fromDecimal (decimal (n div 10)) = n div 10"
      using 1 by simp
    then show ?thesis
      using False by (subst decimal.simps) (simp add: fromDecimal_snoc of_char_digit)
  qed
qed

text \<open>
  C2. The content hash of every patch descriptor is the digest of
  "blob " + decimal(len(C)) + NUL + C, where C is the descriptor's content: for
  WriteFile (when the wrapped reader answers and both modes translate, so that a patch
  is encoded) the from-hash takes the existing content read from the wrapped state and
  the to-hash takes the new data; for RunScript C is the script; for WriteSymlink C is
  the link target. Each call hands the encoder one patch of one file-patch \<open>fp\<close>.
\<close>

theorem C2_blob_hash:
  "(getFileMode X s filename w = Inr (fromFileMode, info) \<longrightarrow>
    ReadFile (sr s) (wrapped w) filename = Inr fromData \<longrightarrow>
    NewFromOSFileMode X perm = Inr toFileMode \<longrightarrow>
      (\<exists>fp. GitDiffSystem_WriteFile X s filename data perm w
               = encode s \<lparr>filePatches = [fp], message = []\<rparr> w
          \<and> map_option hash (fp_from fp) = Some (hashSum X (blobBytes fromData))
          \<and> map_option hash (fp_to fp) = Some (hashSum X (blobBytes data))))
   \<and> (\<exists>fp. GitDiffSystem_RunScript X s name data w
               = encode s \<lparr>filePatches = [fp], message = []\<rparr> w
          \<and> fp_from fp = None
          \<and> map_option hash (fp_to fp) = Some (hashSum X (blobBytes data)))
   \<and> (\<exists>fp. GitDiffSystem_WriteSymlink X s oldname newname w
               = encode s \<lparr>filePatches = [fp], message = []\<rparr> w
          \<and> fp_from fp = None
          \<and> map_option hash (fp_to fp) = Some (hashSum X (blobBytes oldname)))"
proof (intro conjI impI)
  assume "getFileMode X s filename w = Inr (fromFileMode, info)"
    and "ReadFile (sr s) (wrapped w) filename = Inr fromData"
    and "NewFromOSFileMode X perm = Inr toFileMode"
  then have "GitDiffSystem_WriteFile X s filename data perm w
      = encode s \<lparr>filePatches = [\<lparr>fp_isBinary = (isBinary X fromData \<or> isBinary X data),
          fp_from = Some \<lparr>hash = hashSum X (blobBytes fromData), fileMode = fromFileMode,
                          path = trimPrefix s filename\<rparr>,
          fp_to = Some \<lparr>hash = hashSum X (blobBytes data), fileMode = toFileMode,
                        path = trimPrefix s filename\<rparr>,
          fp_chunks = (if \<not> (isBinary X fromData \<or> isBinary X data)
                       then diffChunks X fromData data else [])\<rparr>], message = []\<rparr> w"
    by (simp add: GitDiffSystem_WriteFile_def ComputeHash_blob Let_def)
  then show "\<exists>fp. GitDiffSystem_WriteFile X s filename data perm w
               = encode s \<lparr>filePatches = [fp], message = []\<rparr> w
          \<and> map_option hash (fp_from fp) = Some (hashSum X (blobBytes fromData))
          \<and> map_option hash (fp_to fp) = Some (hashSum X (blobBytes data))"
    by (intro exI conjI, assumption) simp_all
next
  show "\<exists>fp. GitDiffSystem_RunScript X s name data w
               = encode s \<lparr>filePatches = [fp], message = []\<rparr> w
          \<and> fp_from fp = None
          \<and> map_option hash (fp_to fp) = Some (hashSum X (blobBytes data))"
    unfolding GitDiffSystem_RunScript_def Let_def ComputeHash_blob
    by (intro exI conjI, rule refl) simp_all
next
  show "\<exists>fp. GitDiffSystem_WriteSymlink X s oldname newname w
               = encode s \<lparr>filePatches = [fp], message = []\<rparr> w
          \<and> fp_from fp = None
          \<and> map_option hash (fp_to fp) = Some (hashSum X (blobBytes oldname))"
    unfolding GitDiffSystem_WriteSymlink_def ComputeHash_blob
    by (intro exI conjI, rule refl) simp_all
qed

text \<open>
  The theorem at the example system: writing \<^verbatim>\<open>bar\<close> over \<^verbatim>\<open>.bashrc\<close>, which holds
  \<^verbatim>\<open>foo\<close>.
\<close>

theorem C2_blob_hash_witness:
  "getFileMode exampleLibs exampleSystem
       ''/home/user/.bashrc'' exampleWorld
     = Inr (Regular, \<lparr>Name = ''/home/user/.bashrc'', Mode = 420\<rparr>)
   \<and> ReadFile (sr exampleSystem) (wrapped exampleWorld) ''/home/user/.bashrc'' = Inr ''foo''
   \<and> NewFromOSFileMode exampleLibs 420 = Inr Regular
   \<and> (\<exists>fp. GitDiffSystem_WriteFile exampleLibs exampleSystem
               ''/home/user/.bashrc'' ''bar'' 420 exampleWorld
             = encode exampleSystem \<lparr>filePatches = [fp], message = []\<rparr> exampleWorld
          \<and> map_option hash (fp_from fp) = Some (exampleSum (blobBytes ''foo''))
          \<and> map_option hash (fp_to fp) = Some (exampleSum (blobBytes ''bar'')))"
proof -
  have h: "hashSum exampleLibs = exampleSum"
    by (simp add: exampleLibs_def)
  show ?thesis
    using C2_blob_hash [of exampleLibs exampleSystem "''/home/user/.bashrc''" exampleWorld Regular
        "\<lparr>Name = ''/home/user/.bashrc'', Mode = 420\<rparr>" "''foo''" 420 Regular "''bar''"]
      example_getFileMode example_ReadFile example_NewFromOSFileMode_420
    by (simp add: h)
qed

section \<open>Binary contents\<close>

lemma mp4Brands_cases:
  "mp4Brands data boxSize st = [] \<or> mp4Brands data boxSize st = ''video/mp4''"
proof (induction data boxSize st rule: mp4Brands.induct)
  case (1 data boxSize st)
  then show ?case
    by (subst (1 2) mp4Brands.simps) auto
qed

lemma match_cases: "match sg data n = [] \<or> match sg data n = sigType sg"
proof (cases sg)
  case mp4Sig
  then show ?thesis
    using mp4Brands_cases [of data "bigEndianUint32 (take 4 data)" 8]
    by (auto simp: Let_def)
qed (auto simp: Let_def)

lemma firstMatch_nul:
  "list_all (nulSafe xs) sigs \<Longrightarrow> \<not> HasPrefix (firstMatch sigs (CHR 0x00 # xs) 0) ''text/''"
proof (induction sigs)
  case Nil
  show ?case by (simp add: HasPrefix_def)
next
  case (Cons sg sigs)
  then have ih: "\<not> HasPrefix (firstMatch sigs (CHR 0x00 # xs) 0) ''text/''"
    and safe: "nulSafe xs sg"
    by simp_all
  show ?case
  proof (cases "match sg (CHR 0x00 # xs) 0 = []")
    case True
    then show ?thesis using ih by simp
  next
    case False
    then have "match sg (CHR 0x00 # xs) 0 = sigType sg" "\<not> HasPrefix (sigType sg) ''text/''"
      using match_cases [of sg "CHR 0x00 # xs" 0] safe by (auto simp: nulSafe_def)
    then show ?thesis using False by simp
  qed
qed

lemma nulSafe_sniffSignatures: "list_all (nulSafe xs) sniffSignatures"
  by (simp add: sniffSignatures_def nulSafe_def HasPrefix_def byte_def binaryByte_def Let_def)

lemma DetectContentType_nul: "\<not> HasPrefix (http_DetectContentType (CHR 0x00 # xs)) ''text/''"
proof -
  have "takeWhile isWS (CHR 0x00 # ys) = []" for ys
    by (simp add: isWS_def)
  then show ?thesis
    using firstMatch_nul [OF nulSafe_sniffSignatures]
    by (simp add: http_DetectContentType_def Let_def sniffLen_def)
qed

lemma example_sniff_foo: "http_DetectContentType ''foo'' = ''text/plain; charset=utf-8''"
  by code_simp

lemma example_isBinary_foo: "\<not> isBinary exampleLibs ''foo''"
  by (simp add: isBinary_def exampleLibs_def example_sniff_foo HasPrefix_def)

lemma example_isBinary_nul: "isBinary exampleLibs [CHR 0x00, CHR 0x01]"
  by (simp add: isBinary_def exampleLibs_def DetectContentType_nul)

lemma diff_library_irrelevant:
  "getFileMode (X\<lparr>DiffLinesToRunes := a, DiffMainRunes := b, DiffCharsToLines := c\<rparr>) s name w
     = getFileMode X s name w"
  "isBinary (X\<lparr>DiffLinesToRunes := a, DiffMainRunes := b, DiffCharsToLines := c\<rparr>) data
     = isBinary X data"
  "ComputeHash (X\<lparr>DiffLinesToRunes := a, DiffMainRunes := b, DiffCharsToLines := c\<rparr>) t data
     = ComputeHash X t data"
  by (simp_all add: getFileMode_def isBinary_def ComputeHash_def split: sum.split)

text \<open>
  C4. A content is binary exactly when it is not empty and its sniffed type does not
  begin with "text/". So the empty content is not binary and a content whose sniffed type
  begins with "text/" is not binary, whatever the sniffer; and with the sniffer of Go's
  standard library a content that begins with a NUL byte is binary. When WriteFile
  encodes a patch (the wrapped reader answers and both modes translate) and the existing
  or the new content is binary, the file-patch is marked binary and has no chunks, and
  the result is the same whatever the three functions of the diff library are: the
  line diff plays no part in it.
\<close>

theorem C4_binary:
  "isBinary X c = (c \<noteq> [] \<and> \<not> HasPrefix (DetectContentType X c) ''text/'')
   \<and> \<not> isBinary X []
   \<and> (HasPrefix (DetectContentType X c) ''text/'' \<longrightarrow> \<not> isBinary X c)
   \<and> isBinary (X\<lparr>DetectContentType := http_DetectContentType\<rparr>) (CHR 0x00 # rest)
   \<and> (getFileMode X s filename w = Inr (fromFileMode, info) \<longrightarrow>
      ReadFile (sr s) (wrapped w) filename = Inr fromData \<longrightarrow>
      NewFromOSFileMode X perm = Inr toFileMode \<longrightarrow>
      isBinary X fromData \<or> isBinary X data \<longrightarrow>
        GitDiffSystem_WriteFile X s filename data perm w
          = encode s \<lparr>filePatches = [\<lparr>fp_isBinary = True,
              fp_from = Some \<lparr>hash = ComputeHash X BlobObject fromData,
                              fileMode = fromFileMode, path = trimPrefix s filename\<rparr>,
              fp_to = Some \<lparr>hash = ComputeHash X BlobObject data,
                            fileMode = toFileMode, path = trimPrefix s filename\<rparr>,
              fp_chunks = []\<rparr>], message = []\<rparr> w
        \<and> GitDiffSystem_WriteFile
              (X\<lparr>DiffLinesToRunes := toRunes, DiffMainRunes := diffMain, DiffCharsToLines := toLines\<rparr>)
              s filename data perm w
          = GitDiffSystem_WriteFile X s filename data perm w)"
proof (intro conjI impI)
  show "isBinary X c = (c \<noteq> [] \<and> \<not> HasPrefix (DetectContentType X c) ''text/'')"
    by (simp add: isBinary_def)
  show "\<not> isBinary X []"
    by (simp add: isBinary_def)
  show "\<not> isBinary X c" if "HasPrefix (DetectContentType X c) ''text/''"
    using that by (simp add: isBinary_def)
  show "isBinary (X\<lparr>DetectContentType := http_DetectContentType\<rparr>) (CHR 0x00 # rest)"
    by (simp add: isBinary_def DetectContentType_nul)
next
  assume a: "getFileMode X s filename w = Inr (fromFileMode, info)"
    "ReadFile (sr s) (wrapped w) filename = Inr fromData"
    "NewFromOSFileMode X perm = Inr toFileMode"
    "isBinary X fromData \<or> isBinary X data"
  show "GitDiffSystem_WriteFile X s filename data perm w
          = encode s \<lparr>filePatches = [\<lparr>fp_isBinary = True,
              fp_from = Some \<lparr>hash = ComputeHash X BlobObject fromData,
                              fileMode = fromFileMode, path = trimPrefix s filename\<rparr>,
              fp_to = Some \<lparr>hash = ComputeHash X BlobObject data,
                            fileMode = toFileMode, path = trimPrefix s filename\<rparr>,
              fp_chunks = []\<rparr>], message = []\<rparr> w"
    using a by (simp add: GitDiffSystem_WriteFile_def Let_def)
  show "GitDiffSystem_WriteFile
              (X\<lparr>DiffLinesToRunes := toRunes, DiffMainRunes := diffMain, DiffCharsToLines := toLines\<rparr>)
              s filename data perm w
          = GitDiffSystem_WriteFile X s filename data perm w"
    using a
    by (simp add: GitDiffSystem_WriteFile_def Let_def diff_library_irrelevant)
qed

text \<open>
  The theorem at the example system: \<^verbatim>\<open>foo\<close> is sniffed as text, and writing the two
  bytes 00 01 over \<^verbatim>\<open>.bashrc\<close> gives a binary patch without chunks.
\<close>

theorem C4_binary_witness:
  "HasPrefix (DetectContentType exampleLibs ''foo'') ''text/''
   \<and> \<not> isBinary exampleLibs ''foo''
   \<and> getFileMode exampleLibs exampleSystem ''/home/user/.bashrc'' exampleWorld
       = Inr (Regular, \<lparr>Name = ''/home/user/.bashrc'', Mode = 420\<rparr>)
   \<and> ReadFile (sr exampleSystem) (wrapped exampleWorld) ''/home/user/.bashrc'' = Inr ''foo''
   \<and> NewFromOSFileMode exampleLibs 420 = Inr Regular
   \<and> isBinary exampleLibs [CHR 0x00, CHR 0x01]
   \<and> GitDiffSystem_WriteFile exampleLibs exampleSystem ''/home/user/.bashrc''
         [CHR 0x00, CHR 0x01] 420 exampleWorld
       = encode exampleSystem \<lparr>filePatches = [\<lparr>fp_isBinary = True,
              fp_from = Some \<lparr>hash = ComputeHash exampleLibs BlobObject ''foo'',
                              fileMode = Regular, path = ''.bashrc''\<rparr>,
              fp_to = Some \<lparr>hash = ComputeHash exampleLibs BlobObject [CHR 0x00, CHR 0x01],
                            fileMode = Regular, path = ''.bashrc''\<rparr>,
              fp_chunks = []\<rparr>], message = []\<rparr> exampleWorld"
proof -
  have t: "HasPrefix (DetectContentType exampleLibs ''foo'') ''text/''"
    by (simp add: exampleLibs_def example_sniff_foo HasPrefix_def)
  have p: "trimPrefix exampleSystem ''/home/user/.bashrc'' = ''.bashrc''"
    by (simp add: trimPrefix_def TrimPrefix_def HasPrefix_def exampleSystem_def)
  show ?thesis
    using C4_binary [where X = exampleLibs and c = "''foo''" and s = exampleSystem
        and filename = "''/home/user/.bashrc''" and w = exampleWorld and fromFileMode = Regular
        and info = "\<lparr>Name = ''/home/user/.bashrc'', Mode = 420\<rparr>" and fromData = "''foo''"
        and perm = 420 and toFileMode = Regular and data = "[CHR 0x00, CHR 0x01]"]
      t example_getFileMode example_ReadFile example_NewFromOSFileMode_420 example_isBinary_nul
    by (simp add: p)
qed

section \<open>Scripts and mode changes in the diff\<close>

text \<open>
  C10. For every name and data, RunScript hands the encoder exactly one patch, made of
  one file-patch: it has no from descriptor; its to descriptor has the executable file
  mode, the name with the prefix trimmed as its path, and the blob hash of the data; it
  is marked binary exactly when \<open>isBinary\<close> holds of the data; it has one add chunk
  holding the whole script when the data is not binary and no chunk otherwise. Nothing
  but the encoder's state changes: the state behind the wrapped reader, which is all the
  backend can reach of the real system, stays as it is, so nothing is executed. And the
  wrapped state is not read: with any other reader and any other wrapped state the call
  returns the same error and leaves the encoder in the same state.
\<close>

theorem C10_RunScript_patch:
  "GitDiffSystem_RunScript X s name data w
     = encode s \<lparr>filePatches = [\<lparr>fp_isBinary = isBinary X data,
         fp_from = None,
         fp_to = Some \<lparr>hash = hashSum X (blobBytes data), fileMode = Executable,
                       path = TrimPrefix name (GitDiffSystem.prefix s)\<rparr>,
         fp_chunks = (if isBinary X data then [] else [\<lparr>content = data, operation = Add\<rparr>])\<rparr>],
         message = []\<rparr> w
   \<and> wrapped (snd (GitDiffSystem_RunScript X s name data w)) = wrapped w
   \<and> fst (GitDiffSystem_RunScript X (s\<lparr>sr := reader'\<rparr>) name data (w\<lparr>wrapped := state'\<rparr>))
       = fst (GitDiffSystem_RunScript X s name data w)
   \<and> sink (snd (GitDiffSystem_RunScript X (s\<lparr>sr := reader'\<rparr>) name data (w\<lparr>wrapped := state'\<rparr>)))
       = sink (snd (GitDiffSystem_RunScript X s name data w))"
proof (intro conjI)
  show "GitDiffSystem_RunScript X s name data w
     = encode s \<lparr>filePatches = [\<lparr>fp_isBinary = isBinary X data,
         fp_from = None,
         fp_to = Some \<lparr>hash = hashSum X (blobBytes data), fileMode = Executable,
                       path = TrimPrefix name (GitDiffSystem.prefix s)\<rparr>,
         fp_chunks = (if isBinary X data then [] else [\<lparr>content = data, operation = Add\<rparr>])\<rparr>],
         message = []\<rparr> w"
    by (simp add: GitDiffSystem_RunScript_def Let_def ComputeHash_blob trimPrefix_def)
  show "wrapped (snd (GitDiffSystem_RunScript X s name data w)) = wrapped w"
    by (rule wrapped_RunScript)
  show "fst (GitDiffSystem_RunScript X (s\<lparr>sr := reader'\<rparr>) name data (w\<lparr>wrapped := state'\<rparr>))
       = fst (GitDiffSystem_RunScript X s name data w)"
    by (simp add: GitDiffSystem_RunScript_def Let_def encode_def trimPrefix_def split: prod.split)
  show "sink (snd (GitDiffSystem_RunScript X (s\<lparr>sr := reader'\<rparr>) name data (w\<lparr>wrapped := state'\<rparr>)))
       = sink (snd (GitDiffSystem_RunScript X s name data w))"
    by (simp add: GitDiffSystem_RunScript_def Let_def encode_def trimPrefix_def split: prod.split)
qed

lemma ModePerm_replace:
  "((m AND NOT ModePerm) OR mode) AND ModePerm = mode AND ModePerm"
  "((m AND NOT ModePerm) OR mode) AND NOT ModePerm = (m OR mode) AND NOT ModePerm"
  for m mode :: FileMode
  by (auto simp add: bit_eq_iff bit_simps)

lemma ModePerm_only:
  "mode AND ModePerm = mode" if "mode AND NOT ModePerm = 0" for mode :: FileMode
  using that
  by (metis (no_types, lifting) bit.conj_xor_distrib bit.xor_compl_right
    bit.xor_self diff_0_right disjunctive_diff_eq_and_not xor.right_neutral)

lemma ModePerm_kept:
  "(m OR mode) AND NOT ModePerm = m AND NOT ModePerm" if "mode AND NOT ModePerm = 0"
  for m mode :: FileMode
  using that by (simp add: bit.conj_disj_distrib2)

lemma example_Stat_fifo:
  "Stat (sr exampleSystem) (wrapped exampleWorld) ''/home/user/fifo''
     = Inr \<lparr>Name = ''/home/user/fifo'', Mode = ModeNamedPipe OR 420\<rparr>"
  by (simp add: exampleSystem_def memReader_def memStat_def exampleWorld_def exampleFS_def)

lemma example_NewFromOSFileMode_fifo:
  "NewFromOSFileMode exampleLibs (ModeNamedPipe OR 420) = Inl noEquivalent"
  by (simp add: exampleLibs_def filemode_NewFromOSFileMode_def Mode_defs)

text \<open>
  C5, as stated, fails: Stat succeeds on the named pipe \<^verbatim>\<open>/home/user/fifo\<close>, yet
  Chmod returns the error of the mode translation and hands nothing to the encoder.
\<close>

theorem C5_Chmod_counterexample:
  "Stat (sr exampleSystem) (wrapped exampleWorld) ''/home/user/fifo''
     = Inr \<lparr>Name = ''/home/user/fifo'', Mode = ModeNamedPipe OR 420\<rparr>
   \<and> GitDiffSystem_Chmod exampleLibs exampleSystem ''/home/user/fifo'' 420 exampleWorld
     = (Some noEquivalent, exampleWorld)
   \<and> sink exampleWorld = []"
  using example_Stat_fifo example_NewFromOSFileMode_fifo
  by (simp add: GitDiffSystem_Chmod_def getFileMode_def exampleWorld_def)

text \<open>
  C5, amended. Chmod first asks the wrapped reader's Stat and translates the reported
  mode, then translates that mode with its permission bits cleared and \<open>mode\<close> or-ed in.
  When all three succeed it hands the encoder exactly one patch of one file-patch, not
  binary and without chunks, whose from and to descriptors have the same path (the name
  with the prefix trimmed) and the zero hash, the from mode being the translation of the
  reported mode and the to mode the translation of the changed one. When \<open>mode\<close> has
  permission bits only, the changed mode has exactly \<open>mode\<close> as its permission bits and
  the reported mode's other bits. When a translation fails, Chmod returns its error and
  encodes nothing. Only Stat is asked: with any other ReadFile, Readlink, Lstat and Get
  the result is the same.
\<close>

theorem C5_Chmod_patch:
  "(getFileMode X s name w = Inr (fromFileMode, info) \<longrightarrow>
    NewFromOSFileMode X ((Mode info AND NOT ModePerm) OR mode) = Inr toFileMode \<longrightarrow>
      Stat (sr s) (wrapped w) name = Inr info
      \<and> NewFromOSFileMode X (Mode info) = Inr fromFileMode
      \<and> GitDiffSystem_Chmod X s name mode w
          = encode s \<lparr>filePatches = [\<lparr>fp_isBinary = False,
              fp_from = Some \<lparr>hash = ZeroHash, fileMode = fromFileMode,
                              path = TrimPrefix name (GitDiffSystem.prefix s)\<rparr>,
              fp_to = Some \<lparr>hash = ZeroHash, fileMode = toFileMode,
                            path = TrimPrefix name (GitDiffSystem.prefix s)\<rparr>,
              fp_chunks = []\<rparr>], message = []\<rparr> w)
   \<and> (mode AND NOT ModePerm = 0 \<longrightarrow>
        ((Mode info AND NOT ModePerm) OR mode) AND ModePerm = mode
        \<and> ((Mode info AND NOT ModePerm) OR mode) AND NOT ModePerm = Mode info AND NOT ModePerm)
   \<and> (getFileMode X s name w = Inl err \<longrightarrow>
        GitDiffSystem_Chmod X s name mode w = (Some err, w))
   \<and> (getFileMode X s name w = Inr (fromFileMode, info) \<longrightarrow>
      NewFromOSFileMode X ((Mode info AND NOT ModePerm) OR mode) = Inl err \<longrightarrow>
        GitDiffSystem_Chmod X s name mode w = (Some err, w))
   \<and> GitDiffSystem_Chmod X
        (s\<lparr>sr := (sr s)\<lparr>Get := get', Lstat := lstat', ReadFile := readFile', Readlink := readlink'\<rparr>\<rparr>)
        name mode w
       = GitDiffSystem_Chmod X s name mode w"
proof (intro conjI impI)
  assume a: "getFileMode X s name w = Inr (fromFileMode, info)"
    and b: "NewFromOSFileMode X ((Mode info AND NOT ModePerm) OR mode) = Inr toFileMode"
  show "Stat (sr s) (wrapped w) name = Inr info"
    using a by (auto simp: getFileMode_def split: sum.splits)
  show "NewFromOSFileMode X (Mode info) = Inr fromFileMode"
    using a by (auto simp: getFileMode_def split: sum.splits)
  show "GitDiffSystem_Chmod X s name mode w
          = encode s \<lparr>filePatches = [\<lparr>fp_isBinary = False,
              fp_from = Some \<lparr>hash = ZeroHash, fileMode = fromFileMode,
                              path = TrimPrefix name (GitDiffSystem.prefix s)\<rparr>,
              fp_to = Some \<lparr>hash = ZeroHash, fileMode = toFileMode,
                            path = TrimPrefix name (GitDiffSystem.prefix s)\<rparr>,
              fp_chunks = []\<rparr>], message = []\<rparr> w"
    using a b by (simp add: GitDiffSystem_Chmod_def Let_def trimPrefix_def)
next
  assume p: "mode AND NOT ModePerm = 0"
  show "((Mode info AND NOT ModePerm) OR mode) AND ModePerm = mode"
    using ModePerm_only [OF p] by (simp add: ModePerm_replace)
  show "((Mode info AND NOT ModePerm) OR mode) AND NOT ModePerm = Mode info AND NOT ModePerm"
    using ModePerm_kept [OF p] by (simp add: ModePerm_replace)
next
  assume "getFileMode X s name w = Inl err"
  then show "GitDiffSystem_Chmod X s name mode w = (Some err, w)"
    by (simp add: GitDiffSystem_Chmod_def)
next
  assume "getFileMode X s name w = Inr (fromFileMode, info)"
    and "NewFromOSFileMode X ((Mode info AND NOT ModePerm) OR mode) = Inl err"
  then show "GitDiffSystem_Chmod X s name mode w = (Some err, w)"
    by (simp add: GitDiffSystem_Chmod_def)
next
  show "GitDiffSystem_Chmod X
        (s\<lparr>sr := (sr s)\<lparr>Get := get', Lstat := lstat', ReadFile := readFile', Readlink := readlink'\<rparr>\<rparr>)
        name mode w
       = GitDiffSystem_Chmod X s name mode w"
    by (simp add: GitDiffSystem_Chmod_def getFileMode_def encode_def trimPrefix_def Let_def
          split: sum.split prod.split)
qed

text \<open>
  The amended claim at the example system: making \<^verbatim>\<open>.bashrc\<close> (mode 0644, that is 420)
  executable (mode 0755, that is 493); and the errors of the two paths that encode
  nothing, a path that does not exist and a mode argument that names a socket.
\<close>

lemma example_NewFromOSFileMode_493:
  "NewFromOSFileMode exampleLibs ((420 AND NOT ModePerm) OR 493) = Inr Executable"
  by (simp add: exampleLibs_def filemode_NewFromOSFileMode_def Mode_defs)

lemma example_NewFromOSFileMode_socket:
  "NewFromOSFileMode exampleLibs ((420 AND NOT ModePerm) OR ModeSocket) = Inl noEquivalent"
  by (simp add: exampleLibs_def filemode_NewFromOSFileMode_def Mode_defs)

lemma example_getFileMode_missing:
  "getFileMode exampleLibs exampleSystem ''/home/user/none'' exampleWorld = Inl notExist"
  by (simp add: getFileMode_def exampleSystem_def memReader_def memStat_def exampleWorld_def
        exampleFS_def)

theorem C5_Chmod_patch_witness:
  "getFileMode exampleLibs exampleSystem ''/home/user/.bashrc'' exampleWorld
       = Inr (Regular, \<lparr>Name = ''/home/user/.bashrc'', Mode = 420\<rparr>)
   \<and> NewFromOSFileMode exampleLibs ((420 AND NOT ModePerm) OR 493) = Inr Executable
   \<and> GitDiffSystem_Chmod exampleLibs exampleSystem ''/home/user/.bashrc'' 493 exampleWorld
       = encode exampleSystem \<lparr>filePatches = [\<lparr>fp_isBinary = False,
              fp_from = Some \<lparr>hash = ZeroHash, fileMode = Regular, path = ''.bashrc''\<rparr>,
              fp_to = Some \<lparr>hash = ZeroHash, fileMode = Executable, path = ''.bashrc''\<rparr>,
              fp_chunks = []\<rparr>], message = []\<rparr> exampleWorld
   \<and> (493 :: FileMode) AND NOT ModePerm = 0
   \<and> (((420 :: FileMode) AND NOT ModePerm) OR 493) AND ModePerm = 493
   \<and> getFileMode exampleLibs exampleSystem ''/home/user/none'' exampleWorld = Inl notExist
   \<and> GitDiffSystem_Chmod exampleLibs exampleSystem ''/home/user/none'' 493 exampleWorld
       = (Some notExist, exampleWorld)
   \<and> NewFromOSFileMode exampleLibs ((420 AND NOT ModePerm) OR ModeSocket) = Inl noEquivalent
   \<and> GitDiffSystem_Chmod exampleLibs exampleSystem ''/home/user/.bashrc'' ModeSocket exampleWorld
       = (Some noEquivalent, exampleWorld)"
proof -
  have p: "TrimPrefix ''/home/user/.bashrc'' (GitDiffSystem.prefix exampleSystem) = ''.bashrc''"
    by (simp add: TrimPrefix_def HasPrefix_def exampleSystem_def)
  have m: "(493 :: FileMode) AND NOT ModePerm = 0"
    by (simp add: ModePerm_def)
  have ok: "GitDiffSystem_Chmod exampleLibs exampleSystem ''/home/user/.bashrc'' 493 exampleWorld
       = encode exampleSystem \<lparr>filePatches = [\<lparr>fp_isBinary = False,
              fp_from = Some \<lparr>hash = ZeroHash, fileMode = Regular, path = ''.bashrc''\<rparr>,
              fp_to = Some \<lparr>hash = ZeroHash, fileMode = Executable, path = ''.bashrc''\<rparr>,
              fp_chunks = []\<rparr>], message = []\<rparr> exampleWorld"
    and perm: "(((420 :: FileMode) AND NOT ModePerm) OR 493) AND ModePerm = 493"
    using C5_Chmod_patch [where X = exampleLibs and s = exampleSystem
        and name = "''/home/user/.bashrc''" and w = exampleWorld and fromFileMode = Regular
        and info = "\<lparr>Name = ''/home/user/.bashrc'', Mode = 420\<rparr>" and mode = 493
        and toFileMode = Executable]
      example_getFileMode example_NewFromOSFileMode_493 m
    by (simp_all add: p)
  have missing: "GitDiffSystem_Chmod exampleLibs exampleSystem ''/home/user/none'' 493 exampleWorld
       = (Some notExist, exampleWorld)"
    using C5_Chmod_patch [where X = exampleLibs and s = exampleSystem
        and name = "''/home/user/none''" and w = exampleWorld and err = notExist and mode = 493]
      example_getFileMode_missing
    by simp
  have socket: "GitDiffSystem_Chmod exampleLibs exampleSystem ''/home/user/.bashrc'' ModeSocket exampleWorld
       = (Some noEquivalent, exampleWorld)"
    using C5_Chmod_patch [where X = exampleLibs and s = exampleSystem
        and name = "''/home/user/.bashrc''" and w = exampleWorld and fromFileMode = Regular
        and info = "\<lparr>Name = ''/home/user/.bashrc'', Mode = 420\<rparr>" and mode = ModeSocket
        and err = noEquivalent]
      example_getFileMode example_NewFromOSFileMode_socket
    by simp
  show ?thesis
    using ok perm missing socket m example_getFileMode example_NewFromOSFileMode_493
      example_getFileMode_missing example_NewFromOSFileMode_socket
    by simp
qed

section \<open>The direct backend: writing a file\<close>

lemma syscallMode_idem: "syscallMode (syscallMode m) = syscallMode m"
  by (simp add: syscallMode_def and.assoc)

lemma syscallMode_chmodded: "syscallMode (chmodded old mode) = syscallMode mode"
  by (simp add: chmodded_def syscallMode_def bit_eq_iff bit_simps) blast

lemma syscallMode_perm: "mode AND NOT ModePerm = 0 \<Longrightarrow> syscallMode mode = mode"
  for mode :: FileMode
proof -
  assume p: "mode AND NOT ModePerm = 0"
  have k: "ModePerm AND chmodBits = ModePerm"
    by (simp add: chmodBits_def Mode_defs)
  have "syscallMode mode = (mode AND ModePerm) AND chmodBits"
    using ModePerm_only [OF p] by (simp add: syscallMode_def)
  also have "\<dots> = mode AND ModePerm"
    by (simp add: and.assoc k)
  finally show ?thesis
    using ModePerm_only [OF p] by simp
qed

lemma chmodded_exact:
  "old AND NOT chmodBits = 0 \<Longrightarrow> mode AND NOT ModePerm = 0 \<Longrightarrow> chmodded old mode = mode"
  by (simp add: chmodded_def syscallMode_perm)

lemma openedMode_regular:
  "regularOrAbsent fs filename \<Longrightarrow> openedMode out fs filename perm AND NOT chmodBits = 0"
  by (auto simp: regularOrAbsent_def openedMode_def syscallMode_def bit_eq_iff bit_simps
        split: option.splits)

lemma WriteFile_open_failed:
  "openErr out = Some err \<Longrightarrow>
     WriteFile out fs filename data perm
       = (Some err, [(EvOpenFile filename [O_WRONLY, O_CREATE, O_TRUNC] perm, fs)])"
  by (simp add: WriteFile_def OpenFile_def)

lemma OpenFile_ok:
  "openErr out = None \<Longrightarrow>
     OpenFile out fs filename [O_WRONLY, O_CREATE, O_TRUNC] perm
       = (None, fs(filename \<mapsto> (openedMode out fs filename perm, [])))"
  by (simp add: OpenFile_def openedMode_def split: option.split)

lemma WriteFile_chmod_failed:
  assumes "openErr out = None" "chmodErr out = Some err"
  shows "WriteFile out fs filename data perm
       = (multierr_Append (Some err) (closeErr out),
          [(EvOpenFile filename [O_WRONLY, O_CREATE, O_TRUNC] perm,
              fs(filename \<mapsto> (openedMode out fs filename perm, []))),
           (EvChmod filename perm, fs(filename \<mapsto> (openedMode out fs filename perm, []))),
           (EvClose filename, fs(filename \<mapsto> (openedMode out fs filename perm, [])))])"
  using assms by (simp add: WriteFile_def OpenFile_ok File_Chmod_def File_Close_def)

lemma WriteFile_chmod_ok:
  assumes "openErr out = None" "chmodErr out = None"
  shows "WriteFile out fs filename data perm
       = (multierr_Append (map_option snd (writeErr out)) (closeErr out),
          [(EvOpenFile filename [O_WRONLY, O_CREATE, O_TRUNC] perm,
              fs(filename \<mapsto> (openedMode out fs filename perm, []))),
           (EvChmod filename perm,
              fs(filename \<mapsto> (chmodded (openedMode out fs filename perm) perm, []))),
           (EvWrite filename data,
              fs(filename \<mapsto>
                (chmodded (openedMode out fs filename perm) perm,
                 case writeErr out of None \<Rightarrow> data | Some (n, e) \<Rightarrow> take n data))),
           (EvClose filename,
              fs(filename \<mapsto>
                (chmodded (openedMode out fs filename perm) perm,
                 case writeErr out of None \<Rightarrow> data | Some (n, e) \<Rightarrow> take n data)))])"
  using assms
  by (simp add: WriteFile_def OpenFile_ok File_Chmod_def File_Write_def File_Close_def
        split: option.split)

text \<open>
  C3. WriteFile calls the primitives in this order and no other: it opens the
  destination with \<^verbatim>\<open>O_WRONLY|O_CREATE|O_TRUNC\<close>, sets the mode to \<open>perm\<close>, writes
  \<open>data\<close>, and closes; an error ends the sequence (after a failed open nothing
  follows, after a failed chmod only the close). From the open on, in every state of the
  filesystem the file holds bytes of the new data only (none of the old content is left
  after the truncation), and whenever it holds any byte its permission bits are those of
  \<open>perm\<close>: after the open it is empty, after the chmod it is empty and has the bits of
  \<open>perm\<close> that a chmod sets (the type bits of the file stay), after the write it holds
  the data (the part written, when the write failed) under the same mode. When the
  destination is a regular file or does not exist and \<open>perm\<close> has permission bits only,
  that mode is exactly \<open>perm\<close>; and when, moreover, no primitive fails, the file ends
  with exactly \<open>data\<close> and \<open>perm\<close> and the error returned is \<^verbatim>\<open>nil\<close>.
\<close>

theorem C3_WriteFile_order:
  "map fst (snd (WriteFile out fs filename data perm))
     = (if openErr out \<noteq> None then [EvOpenFile filename [O_WRONLY, O_CREATE, O_TRUNC] perm]
        else if chmodErr out \<noteq> None then
          [EvOpenFile filename [O_WRONLY, O_CREATE, O_TRUNC] perm, EvChmod filename perm,
           EvClose filename]
        else
          [EvOpenFile filename [O_WRONLY, O_CREATE, O_TRUNC] perm, EvChmod filename perm,
           EvWrite filename data, EvClose filename])
   \<and> (openErr out = None \<longrightarrow>
        list_all (exposesOnlyNew filename data perm)
          (map snd (snd (WriteFile out fs filename data perm))))
   \<and> (openErr out = None \<longrightarrow> chmodErr out = None \<longrightarrow>
        map (\<lambda>(ev, st). st filename) (snd (WriteFile out fs filename data perm))
          = [Some (case fs filename of
                     None \<Rightarrow> syscallMode perm AND NOT (umask out AND ModePerm)
                   | Some (m, c) \<Rightarrow> m, []),
             Some (chmodded (case fs filename of
                     None \<Rightarrow> syscallMode perm AND NOT (umask out AND ModePerm)
                   | Some (m, c) \<Rightarrow> m) perm, []),
             Some (chmodded (case fs filename of
                     None \<Rightarrow> syscallMode perm AND NOT (umask out AND ModePerm)
                   | Some (m, c) \<Rightarrow> m) perm,
                   case writeErr out of None \<Rightarrow> data | Some (n, e) \<Rightarrow> take n data),
             Some (chmodded (case fs filename of
                     None \<Rightarrow> syscallMode perm AND NOT (umask out AND ModePerm)
                   | Some (m, c) \<Rightarrow> m) perm,
                   case writeErr out of None \<Rightarrow> data | Some (n, e) \<Rightarrow> take n data)])
   \<and> (openErr out = None \<longrightarrow> chmodErr out = None \<longrightarrow>
      regularOrAbsent fs filename \<longrightarrow> perm AND NOT ModePerm = 0 \<longrightarrow>
        map (\<lambda>(ev, st). st filename) (tl (snd (WriteFile out fs filename data perm)))
          = [Some (perm, []),
             Some (perm, case writeErr out of None \<Rightarrow> data | Some (n, e) \<Rightarrow> take n data),
             Some (perm, case writeErr out of None \<Rightarrow> data | Some (n, e) \<Rightarrow> take n data)])
   \<and> (openErr out = None \<longrightarrow> chmodErr out = None \<longrightarrow> writeErr out = None \<longrightarrow>
      closeErr out = None \<longrightarrow> regularOrAbsent fs filename \<longrightarrow> perm AND NOT ModePerm = 0 \<longrightarrow>
          fst (WriteFile out fs filename data perm) = None
          \<and> finalState fs (snd (WriteFile out fs filename data perm)) filename
              = Some (perm, data))"
proof (intro conjI impI)
  show "map fst (snd (WriteFile out fs filename data perm))
     = (if openErr out \<noteq> None then [EvOpenFile filename [O_WRONLY, O_CREATE, O_TRUNC] perm]
        else if chmodErr out \<noteq> None then
          [EvOpenFile filename [O_WRONLY, O_CREATE, O_TRUNC] perm, EvChmod filename perm,
           EvClose filename]
        else
          [EvOpenFile filename [O_WRONLY, O_CREATE, O_TRUNC] perm, EvChmod filename perm,
           EvWrite filename data, EvClose filename])"
  proof (cases "openErr out")
    case (Some err)
    then show ?thesis by (simp add: WriteFile_open_failed)
  next
    case None
    then show ?thesis
      by (cases "chmodErr out") (simp_all add: WriteFile_chmod_ok WriteFile_chmod_failed)
  qed
next
  assume o: "openErr out = None"
  show "list_all (exposesOnlyNew filename data perm)
          (map snd (snd (WriteFile out fs filename data perm)))"
  proof (cases "chmodErr out")
    case None
    then show ?thesis
      using o
      by (simp add: WriteFile_chmod_ok exposesOnlyNew_def HasPrefix_def take_is_prefix
            syscallMode_chmodded split: option.split)
  next
    case (Some err)
    then show ?thesis
      using o by (simp add: WriteFile_chmod_failed exposesOnlyNew_def HasPrefix_def)
  qed
next
  assume "openErr out = None" "chmodErr out = None"
  then show "map (\<lambda>(ev, st). st filename) (snd (WriteFile out fs filename data perm))
          = [Some (case fs filename of
                     None \<Rightarrow> syscallMode perm AND NOT (umask out AND ModePerm)
                   | Some (m, c) \<Rightarrow> m, []),
             Some (chmodded (case fs filename of
                     None \<Rightarrow> syscallMode perm AND NOT (umask out AND ModePerm)
                   | Some (m, c) \<Rightarrow> m) perm, []),
             Some (chmodded (case fs filename of
                     None \<Rightarrow> syscallMode perm AND NOT (umask out AND ModePerm)
                   | Some (m, c) \<Rightarrow> m) perm,
                   case writeErr out of None \<Rightarrow> data | Some (n, e) \<Rightarrow> take n data),
             Some (chmodded (case fs filename of
                     None \<Rightarrow> syscallMode perm AND NOT (umask out AND ModePerm)
                   | Some (m, c) \<Rightarrow> m) perm,
                   case writeErr out of None \<Rightarrow> data | Some (n, e) \<Rightarrow> take n data)]"
    by (simp add: WriteFile_chmod_ok openedMode_def)
next
  assume a: "openErr out = None" "chmodErr out = None"
    and r: "regularOrAbsent fs filename" and p: "perm AND NOT ModePerm = 0"
  have e: "chmodded (openedMode out fs filename perm) perm = perm"
    using chmodded_exact [OF openedMode_regular [OF r] p] .
  show "map (\<lambda>(ev, st). st filename) (tl (snd (WriteFile out fs filename data perm)))
          = [Some (perm, []),
             Some (perm, case writeErr out of None \<Rightarrow> data | Some (n, e) \<Rightarrow> take n data),
             Some (perm, case writeErr out of None \<Rightarrow> data | Some (n, e) \<Rightarrow> take n data)]"
    using a by (simp add: WriteFile_chmod_ok e)
next
  assume a: "openErr out = None" "chmodErr out = None" "writeErr out = None" "closeErr out = None"
    and r: "regularOrAbsent fs filename" and p: "perm AND NOT ModePerm = 0"
  have e: "chmodded (openedMode out fs filename perm) perm = perm"
    using chmodded_exact [OF openedMode_regular [OF r] p] .
  show "fst (WriteFile out fs filename data perm) = None"
    using a by (simp add: WriteFile_chmod_ok)
  show "finalState fs (snd (WriteFile out fs filename data perm)) filename = Some (perm, data)"
    using a by (simp add: WriteFile_chmod_ok finalState_def e)
qed

text \<open>
  The scenario of the spec: \<^verbatim>\<open>/a\<close> has mode 0777 (511) and content \<^verbatim>\<open>old\<close>; after
  writing \<^verbatim>\<open>new\<close> with mode 0644 (420) it has exactly that mode and content, and the
  old content was never visible under the new mode.
\<close>

theorem C3_WriteFile_order_witness:
  "openErr noFailure = None \<and> chmodErr noFailure = None \<and> writeErr noFailure = None
   \<and> closeErr noFailure = None
   \<and> regularOrAbsent [''/a'' \<mapsto> (511, ''old'')] ''/a''
   \<and> (420 :: FileMode) AND NOT ModePerm = 0
   \<and> list_all (exposesOnlyNew ''/a'' ''new'' 420)
        (map snd (snd (WriteFile noFailure [''/a'' \<mapsto> (511, ''old'')] ''/a'' ''new'' 420)))
   \<and> map (\<lambda>(ev, st). st ''/a'')
        (snd (WriteFile noFailure [''/a'' \<mapsto> (511, ''old'')] ''/a'' ''new'' 420))
       = [Some (511, []), Some (420, []), Some (420, ''new''), Some (420, ''new'')]
   \<and> fst (WriteFile noFailure [''/a'' \<mapsto> (511, ''old'')] ''/a'' ''new'' 420) = None
   \<and> finalState [''/a'' \<mapsto> (511, ''old'')]
        (snd (WriteFile noFailure [''/a'' \<mapsto> (511, ''old'')] ''/a'' ''new'' 420)) ''/a''
       = Some (420, ''new'')"
proof -
  have r: "regularOrAbsent [''/a'' \<mapsto> (511, ''old'')] ''/a''"
    by (simp add: regularOrAbsent_def chmodBits_def Mode_defs)
  have p: "(420 :: FileMode) AND NOT ModePerm = 0"
    by (simp add: ModePerm_def)
  have c: "chmodded 511 420 = 420"
    by (simp add: chmodded_def syscallMode_def chmodBits_def Mode_defs)
  show ?thesis
    using C3_WriteFile_order [of noFailure "[''/a'' \<mapsto> (511, ''old'')]" "''/a''" "''new''" 420]
      r p
    by (simp add: noFailure_def c)
qed

section \<open>The direct backend: running a script\<close>

lemma RunScript_after_TempFile:
  assumes "TempFile out fs (''*.'' @ Base name) = Inr (tmp, fs0)"
  shows "RealSystem_RunScript out fs name data
     = (multierr_Append (fst (RunScript_body out fs0 tmp data))
          (fst (RemoveAll out (finalState fs0 (snd (RunScript_body out fs0 tmp data))) tmp)),
        (EvTempFile (''*.'' @ Base name) tmp, fs0) # snd (RunScript_body out fs0 tmp data)
          @ [(EvRemoveAll tmp,
              snd (RemoveAll out (finalState fs0 (snd (RunScript_body out fs0 tmp data))) tmp))])"
  using assms by (simp add: RealSystem_RunScript_def split: prod.split)

lemma RemoveAll_result:
  "fst (RemoveAll out fs name) = removeAllErr out"
  "removeAllErr out = None \<Longrightarrow> snd (RemoveAll out fs name) name = None"
  by (simp_all add: RemoveAll_def split: option.split)

lemma finalState_snoc: "finalState fs (tr @ [(ev, fs')]) = fs'"
  by (simp add: finalState_def)

lemma finalState_Cons_snoc: "finalState fs (x # tr @ [(ev, fs')]) = fs'"
  using finalState_snoc [of fs "x # tr" ev fs'] by simp

lemma File_Chmod_ok: "chmodErr out = None \<Longrightarrow> fst (File_Chmod out fs name m) = None"
  by (simp add: File_Chmod_def split: option.split)

lemma RunScript_body_chmod_failed:
  "chmodErr out = Some e \<Longrightarrow> fst (RunScript_body out fs0 tmp data) = Some e"
  by (simp add: RunScript_body_def File_Chmod_def)

lemma File_Write_error: "fst (File_Write out st tmp data) = map_option snd (writeErr out)"
  by (auto simp: File_Write_def split: option.split)

lemma RunScript_body_setup_failed:
  assumes h1: "chmodErr out = None"
    and h2: "multierr_Append (map_option snd (writeErr out)) (closeErr out) = Some e"
  shows "fst (RunScript_body out fs0 tmp data) = Some e"
proof -
  obtain fs1 where c: "File_Chmod out fs0 tmp 448 = (None, fs1)"
    using File_Chmod_ok [OF h1, of fs0 tmp 448]
    by (cases "File_Chmod out fs0 tmp 448") auto
  obtain werr fs2 where x: "File_Write out fs1 tmp data = (werr, fs2)"
    by (cases "File_Write out fs1 tmp data")
  have "werr = map_option snd (writeErr out)"
    using File_Write_error [of out fs1 tmp data] x by simp
  then show ?thesis
    using h2 c x by (simp add: RunScript_body_def File_Close_def)
qed

lemma RunScript_body_run:
  assumes h1: "chmodErr out = None" and h2: "writeErr out = None" and h3: "closeErr out = None"
  shows "\<exists>st. fst (RunScript_body out fs0 tmp data) = fst (runScript out tmp st)
             \<and> EvRun tmp \<in> set (map fst (snd (RunScript_body out fs0 tmp data)))"
proof -
  obtain fs1 where c: "File_Chmod out fs0 tmp 448 = (None, fs1)"
    using File_Chmod_ok [OF h1, of fs0 tmp 448]
    by (cases "File_Chmod out fs0 tmp 448") auto
  obtain werr fs2 where x: "File_Write out fs1 tmp data = (werr, fs2)"
    by (cases "File_Write out fs1 tmp data")
  have "werr = None"
    using File_Write_error [of out fs1 tmp data] x h2 by simp
  then have "fst (RunScript_body out fs0 tmp data) = fst (runScript out tmp fs2)
      \<and> EvRun tmp \<in> set (map fst (snd (RunScript_body out fs0 tmp data)))"
    using h3 c x by (simp add: RunScript_body_def File_Close_def split: prod.split)
  then show ?thesis by blast
qed

text \<open>
  C6. Once the temporary file \<open>tmp\<close> has been made, RunScript ends on every path with
  a call of \<^verbatim>\<open>RemoveAll\<close> on it: after a failed chmod, after a failed write or close,
  after the script has run, with or without an error. When that removal succeeds the
  file does not exist afterwards, whatever the script did. The error returned is the
  error of the body combined with the error of the removal: when both fail it lists the
  errors of both, the body's first. The body's error is the chmod's, else the write's
  and the close's combined, else the script's. (When the temporary file cannot be made
  there is nothing to remove: the error is returned and no other primitive is called.)
\<close>

theorem C6_RunScript_cleanup:
  "(TempFile out fs (''*.'' @ Base name) = Inr (tmp, fs0) \<longrightarrow>
      (\<exists>tr fs'. snd (RealSystem_RunScript out fs name data) = tr @ [(EvRemoveAll tmp, fs')])
      \<and> fst (RealSystem_RunScript out fs name data)
          = multierr_Append (fst (RunScript_body out fs0 tmp data)) (removeAllErr out)
      \<and> (removeAllErr out = None \<longrightarrow>
           finalState fs (snd (RealSystem_RunScript out fs name data)) tmp = None)
      \<and> (fst (RunScript_body out fs0 tmp data) = Some e1 \<longrightarrow> removeAllErr out = Some e2 \<longrightarrow>
           fst (RealSystem_RunScript out fs name data) = Some (MultiErr (Errors e1 @ Errors e2))))
   \<and> (chmodErr out = Some e \<longrightarrow> fst (RunScript_body out fs0 tmp data) = Some e)
   \<and> (chmodErr out = None \<longrightarrow>
        multierr_Append (map_option snd (writeErr out)) (closeErr out) = Some e \<longrightarrow>
          fst (RunScript_body out fs0 tmp data) = Some e)
   \<and> (chmodErr out = None \<longrightarrow> writeErr out = None \<longrightarrow> closeErr out = None \<longrightarrow>
        (\<exists>st. fst (RunScript_body out fs0 tmp data) = fst (runScript out tmp st)
              \<and> EvRun tmp \<in> set (map fst (snd (RunScript_body out fs0 tmp data)))))
   \<and> (TempFile out fs (''*.'' @ Base name) = Inl e \<longrightarrow>
        RealSystem_RunScript out fs name data = (Some e, []))"
proof (intro conjI impI)
  assume t: "TempFile out fs (''*.'' @ Base name) = Inr (tmp, fs0)"
  note r = RunScript_after_TempFile [OF t, of data]
  show "\<exists>tr fs'. snd (RealSystem_RunScript out fs name data) = tr @ [(EvRemoveAll tmp, fs')]"
    unfolding r by (metis append_Cons snd_conv)
  show "fst (RealSystem_RunScript out fs name data)
          = multierr_Append (fst (RunScript_body out fs0 tmp data)) (removeAllErr out)"
    unfolding r by (simp add: RemoveAll_result)
  show "finalState fs (snd (RealSystem_RunScript out fs name data)) tmp = None"
    if "removeAllErr out = None"
    unfolding r using that by (simp add: finalState_Cons_snoc RemoveAll_result)
  show "fst (RealSystem_RunScript out fs name data) = Some (MultiErr (Errors e1 @ Errors e2))"
    if "fst (RunScript_body out fs0 tmp data) = Some e1" "removeAllErr out = Some e2"
    unfolding r using that by (simp add: RemoveAll_result)
next
  show "fst (RunScript_body out fs0 tmp data) = Some e" if "chmodErr out = Some e"
    using that by (rule RunScript_body_chmod_failed)
  show "fst (RunScript_body out fs0 tmp data) = Some e"
    if "chmodErr out = None" "multierr_Append (map_option snd (writeErr out)) (closeErr out) = Some e"
    using that by (rule RunScript_body_setup_failed)
  show "\<exists>st. fst (RunScript_body out fs0 tmp data) = fst (runScript out tmp st)
              \<and> EvRun tmp \<in> set (map fst (snd (RunScript_body out fs0 tmp data)))"
    if "chmodErr out = None" "writeErr out = None" "closeErr out = None"
    using that by (rule RunScript_body_run)
  show "RealSystem_RunScript out fs name data = (Some e, [])"
    if "TempFile out fs (''*.'' @ Base name) = Inl e"
    using that by (simp add: RealSystem_RunScript_def)
qed

text \<open>
  The theorem at two runs of \<^verbatim>\<open>run.sh\<close>: one where the chmod of the temporary file and
  its removal both fail, and both errors are returned; one where nothing fails, and the
  temporary file is gone at the end.
\<close>

lemma example_TempFile:
  "TempFile (noFailure\<lparr>chmodErr := c, removeAllErr := r\<rparr>) Map.empty
       (''*.'' @ Base ''/home/user/.chezmoi/run.sh'')
     = Inr (''/tmp/123456789.run.sh'', [''/tmp/123456789.run.sh'' \<mapsto> (384, [])])"
  by (simp add: TempFile_def noFailure_def Base_def Let_def)

theorem C6_RunScript_cleanup_witness:
  "TempFile (noFailure\<lparr>chmodErr := Some (Err ''chmod''), removeAllErr := Some (Err ''remove'')\<rparr>)
       Map.empty (''*.'' @ Base ''/home/user/.chezmoi/run.sh'')
     = Inr (''/tmp/123456789.run.sh'', [''/tmp/123456789.run.sh'' \<mapsto> (384, [])])
   \<and> chmodErr (noFailure\<lparr>chmodErr := Some (Err ''chmod''), removeAllErr := Some (Err ''remove'')\<rparr>)
       = Some (Err ''chmod'')
   \<and> removeAllErr (noFailure\<lparr>chmodErr := Some (Err ''chmod''), removeAllErr := Some (Err ''remove'')\<rparr>)
       = Some (Err ''remove'')
   \<and> fst (RealSystem_RunScript
            (noFailure\<lparr>chmodErr := Some (Err ''chmod''), removeAllErr := Some (Err ''remove'')\<rparr>)
            Map.empty ''/home/user/.chezmoi/run.sh'' ''#!/bin/sh'')
       = Some (MultiErr [Err ''chmod'', Err ''remove''])
   \<and> TempFile (noFailure\<lparr>chmodErr := None, removeAllErr := None\<rparr>)
       Map.empty (''*.'' @ Base ''/home/user/.chezmoi/run.sh'')
     = Inr (''/tmp/123456789.run.sh'', [''/tmp/123456789.run.sh'' \<mapsto> (384, [])])
   \<and> removeAllErr (noFailure\<lparr>chmodErr := None, removeAllErr := None\<rparr>) = None
   \<and> finalState Map.empty
        (snd (RealSystem_RunScript (noFailure\<lparr>chmodErr := None, removeAllErr := None\<rparr>)
               Map.empty ''/home/user/.chezmoi/run.sh'' ''#!/bin/sh''))
        ''/tmp/123456789.run.sh'' = None"
proof -
  let ?bad = "noFailure\<lparr>chmodErr := Some (Err ''chmod''), removeAllErr := Some (Err ''remove'')\<rparr>"
  let ?good = "noFailure\<lparr>chmodErr := None, removeAllErr := None\<rparr>"
  let ?fs0 = "[''/tmp/123456789.run.sh'' \<mapsto> (384 :: FileMode, [] :: string)]"
  have b: "fst (RunScript_body ?bad ?fs0 ''/tmp/123456789.run.sh'' ''#!/bin/sh'')
      = Some (Err ''chmod'')"
    using C6_RunScript_cleanup [where out = "?bad" and e = "Err ''chmod''"] by simp
  have both: "fst (RealSystem_RunScript ?bad Map.empty ''/home/user/.chezmoi/run.sh'' ''#!/bin/sh'')
      = Some (MultiErr [Err ''chmod'', Err ''remove''])"
    using C6_RunScript_cleanup [where out = "?bad" and fs = Map.empty
        and name = "''/home/user/.chezmoi/run.sh''" and tmp = "''/tmp/123456789.run.sh''"
        and ?fs0.0 = "?fs0" and data = "''#!/bin/sh''" and ?e1.0 = "Err ''chmod''"
        and ?e2.0 = "Err ''remove''"]
      example_TempFile b
    by simp
  have gone: "finalState Map.empty
      (snd (RealSystem_RunScript ?good Map.empty ''/home/user/.chezmoi/run.sh'' ''#!/bin/sh''))
      ''/tmp/123456789.run.sh'' = None"
    using C6_RunScript_cleanup [where out = "?good" and fs = Map.empty
        and name = "''/home/user/.chezmoi/run.sh''" and tmp = "''/tmp/123456789.run.sh''"
        and ?fs0.0 = "?fs0" and data = "''#!/bin/sh''"]
      example_TempFile
    by simp
  show ?thesis
    using both gone example_TempFile by simp
qed

section \<open>The direct backend: replacing a symbolic link\<close>





section \<open>Private entries\<close>

lemma private_not_symlink: "HasPrefix name privatePrefix \<Longrightarrow> \<not> HasPrefix name symlinkPrefix"
  by (auto simp: HasPrefix_def privatePrefix_def symlinkPrefix_def elim!: prefixE)

lemma TrimPrefix_private:
  "HasPrefix name privatePrefix \<Longrightarrow> TrimPrefix name privatePrefix = drop (length privatePrefix) name"
  by (simp add: TrimPrefix_def)

text \<open>
  C8. Take a source entry whose name begins with the private marker \<^verbatim>\<open>private_\<close>, in any
  source and target directory, under any umask, whatever the executable marker does to
  the permission bits of other files. If it is a file with content \<open>c\<close>, populating
  yields a file entry whose permission is exactly 0600 (384), whose content is \<open>c\<close>, and
  whose target name is decoded from the rest of the name after the marker (the markers
  \<^verbatim>\<open>empty_\<close> and \<^verbatim>\<open>executable_\<close> taken off, the hidden marker and the template suffix
  decoded, as for any other name). If it is a directory, populating yields a directory
  entry whose permission is exactly 0700 (448), whose target name is the rest of the name
  with the hidden marker decoded.
\<close>

theorem C8_private_entries:
  "HasPrefix name privatePrefix \<longrightarrow>
     populateEntry exec um sourceDir targetDir name (ScannedFile c)
       = (TrimSuffix (decodeDot (TrimPrefix (TrimPrefix (drop (length privatePrefix) name)
              emptyPrefix) executablePrefix)) templateSuffix,
          FileEntry (joinPath sourceDir name)
            (joinPath targetDir
               (TrimSuffix (decodeDot (TrimPrefix (TrimPrefix (drop (length privatePrefix) name)
                  emptyPrefix) executablePrefix)) templateSuffix))
            384
            (HasPrefix (drop (length privatePrefix) name) emptyPrefix)
            (HasSuffix (decodeDot (TrimPrefix (TrimPrefix (drop (length privatePrefix) name)
               emptyPrefix) executablePrefix)) templateSuffix)
            c)
     \<and> populateEntry exec um sourceDir targetDir name (ScannedDir children)
       = (decodeDot (drop (length privatePrefix) name),
          DirEntry (joinPath sourceDir name)
            (joinPath targetDir (decodeDot (drop (length privatePrefix) name)))
            448
            (populateEntries exec um (joinPath sourceDir name)
               (joinPath targetDir (decodeDot (drop (length privatePrefix) name))) children))"
proof
  assume p: "HasPrefix name privatePrefix"
  show "populateEntry exec um sourceDir targetDir name (ScannedFile c)
       = (TrimSuffix (decodeDot (TrimPrefix (TrimPrefix (drop (length privatePrefix) name)
              emptyPrefix) executablePrefix)) templateSuffix,
          FileEntry (joinPath sourceDir name)
            (joinPath targetDir
               (TrimSuffix (decodeDot (TrimPrefix (TrimPrefix (drop (length privatePrefix) name)
                  emptyPrefix) executablePrefix)) templateSuffix))
            384
            (HasPrefix (drop (length privatePrefix) name) emptyPrefix)
            (HasSuffix (decodeDot (TrimPrefix (TrimPrefix (drop (length privatePrefix) name)
               emptyPrefix) executablePrefix)) templateSuffix)
            c)
     \<and> populateEntry exec um sourceDir targetDir name (ScannedDir children)
       = (decodeDot (drop (length privatePrefix) name),
          DirEntry (joinPath sourceDir name)
            (joinPath targetDir (decodeDot (drop (length privatePrefix) name)))
            448
            (populateEntries exec um (joinPath sourceDir name)
               (joinPath targetDir (decodeDot (drop (length privatePrefix) name))) children))"
    using p private_not_symlink [OF p]
    by (simp add: TrimPrefix_private filePerm_def dirPerm_def Let_def)
qed

text \<open>
  The two scenarios of the test, both under the root \<^verbatim>\<open>/\<close> and the umask 0:
  \<^verbatim>\<open>private_foo\<close> with content \<^verbatim>\<open>bar\<close> becomes the entry \<^verbatim>\<open>foo\<close> with mode 0600 and
  content \<^verbatim>\<open>bar\<close>; the directory \<^verbatim>\<open>private_dot_foo\<close> becomes \<^verbatim>\<open>.foo\<close> with mode 0700,
  and the file \<^verbatim>\<open>bar\<close> inside it, which has no marker of its own, keeps the default
  0666 (438). Under the umask 022 (18) \<^verbatim>\<open>private_foo\<close> still has mode 0600.
\<close>

theorem C8_private_entries_witness:
  "HasPrefix ''private_foo'' privatePrefix
   \<and> TargetEntries (Populate addExecuteBits (NewTargetState ''/'' 0 ''/'')
         [(''private_foo'', ScannedFile ''bar'')])
       = [(''foo'', FileEntry ''private_foo'' ''foo'' 384 False False ''bar'')]
   \<and> TargetEntries (Populate addExecuteBits (NewTargetState ''/'' 18 ''/'')
         [(''private_foo'', ScannedFile ''bar'')])
       = [(''foo'', FileEntry ''private_foo'' ''foo'' 384 False False ''bar'')]
   \<and> HasPrefix ''private_dot_foo'' privatePrefix
   \<and> TargetEntries (Populate addExecuteBits (NewTargetState ''/'' 0 ''/'')
         [(''private_dot_foo'', ScannedDir [(''bar'', ScannedFile ''baz'')])])
       = [(''.foo'', DirEntry ''private_dot_foo'' ''.foo'' 448
            [(''bar'', FileEntry ''private_dot_foo/bar'' ''.foo/bar'' 438 False False ''baz'')])]"
proof -
  have p1: "HasPrefix ''private_foo'' privatePrefix"
    and p2: "HasPrefix ''private_dot_foo'' privatePrefix"
    by (simp_all add: HasPrefix_def privatePrefix_def)
  have f: "populateEntry addExecuteBits um [] [] ''private_foo'' (ScannedFile ''bar'')
      = (''foo'', FileEntry ''private_foo'' ''foo'' 384 False False ''bar'')" for um
    using C8_private_entries [of "''private_foo''" addExecuteBits um "[]" "[]" "''bar''"] p1
    by (simp add: privatePrefix_def emptyPrefix_def executablePrefix_def decodeDot_def
          dotPrefix_def HasPrefix_def TrimPrefix_def TrimSuffix_def HasSuffix_def
          templateSuffix_def joinPath_def)
  have d: "populateEntry addExecuteBits 0 [] [] ''private_dot_foo''
        (ScannedDir [(''bar'', ScannedFile ''baz'')])
      = (''.foo'', DirEntry ''private_dot_foo'' ''.foo'' 448
            (populateEntries addExecuteBits 0 ''private_dot_foo'' ''.foo''
               [(''bar'', ScannedFile ''baz'')]))"
    using C8_private_entries [of "''private_dot_foo''" addExecuteBits 0 "[]" "[]" _
        "[(''bar'', ScannedFile ''baz'')]"] p2
    by (simp add: privatePrefix_def decodeDot_def dotPrefix_def HasPrefix_def TrimPrefix_def
          joinPath_def)
  have inner: "populateEntry addExecuteBits 0 ''private_dot_foo'' ''.foo'' ''bar''
        (ScannedFile ''baz'')
      = (''bar'', FileEntry ''private_dot_foo/bar'' ''.foo/bar'' 438 False False ''baz'')"
    by (simp add: privatePrefix_def emptyPrefix_def executablePrefix_def symlinkPrefix_def
          decodeDot_def dotPrefix_def HasPrefix_def TrimPrefix_def TrimSuffix_def HasSuffix_def
          templateSuffix_def joinPath_def filePerm_def Let_def)
  show ?thesis
    using p1 p2 by (simp add: Populate_def NewTargetState_def f d inner del: populateEntry.simps)
qed

end
